theory Spec2Isabelle
  imports Complex_Main
begin

section \<open>Numbers, tensors and errors\<close>

text \<open>
  The learner of \<^verbatim>\<open>MARL/MAPPO.py\<close> computes on float64 numpy arrays and float32 torch
  tensors. The embedding reads every such number as a real: rounding is not modelled, the
  order of the operations is the source's. A one-dimensional array is a list, a parameter
  tensor is the list of its entries in row-major order, and the parameters of a network
  are the list of its parameter tensors in the order of \<^verbatim>\<open>parameters()\<close>.
\<close>

type_synonym tensor = "real list"
type_synonym params = "tensor list"

text \<open>The exceptions that the modelled code can raise.\<close>

datatype error =
    ZeroDivisionError
  | RuntimeError
  | TypeError
  | AttributeError
  | ValueError
  | IndexError
  | KeyError
  | UnboundLocalError

section \<open>Discounting a rollout: \<^verbatim>\<open>MAPPO._discount_reward\<close>\<close>

text \<open>
  \<^verbatim>\<open>
  def _discount_reward(self, rewards, final_value):
      discounted_r = np.zeros_like(rewards)
      running_add = final_value
      for t in reversed(range(0, len(rewards))):
          running_add = running_add * self.reward_gamma + rewards[t]
          discounted_r[t] = running_add
      return discounted_r
  \<close>
  The loop counter of \<open>discount_loop\<close> is the number of indices still to visit: at
  \<open>Suc t\<close> the body runs for index \<open>t\<close>, which is below \<open>length rewards\<close>, so the read
  \<open>rewards ! t\<close> and the write \<open>discounted_r[t := _]\<close> are in range as in the source.
\<close>

fun discount_loop :: "real \<Rightarrow> real list \<Rightarrow> nat \<Rightarrow> real \<Rightarrow> real list \<Rightarrow> real list" where
  "discount_loop reward_gamma rewards 0 running_add discounted_r = discounted_r"
| "discount_loop reward_gamma rewards (Suc t) running_add discounted_r =
     (let running_add' = running_add * reward_gamma + rewards ! t
      in discount_loop reward_gamma rewards t running_add' (discounted_r[t := running_add']))"

definition discount_reward :: "real \<Rightarrow> real list \<Rightarrow> real \<Rightarrow> real list" where
  "discount_reward reward_gamma rewards final_value =
     discount_loop reward_gamma rewards (length rewards) final_value
       (replicate (length rewards) 0)"

text \<open>The return from index \<open>i\<close> on, written as a fold over the tail of the rollout.\<close>

definition return_from :: "real \<Rightarrow> real list \<Rightarrow> real \<Rightarrow> nat \<Rightarrow> real" where
  "return_from g rs v i = foldr (\<lambda>r acc. acc * g + r) (drop i rs) v"

section \<open>Soft update of a target network: \<^verbatim>\<open>MAPPO._soft_update_target\<close>\<close>

text \<open>
  \<^verbatim>\<open>
  def _soft_update_target(self, target, source):
      for t, s in zip(target.parameters(), source.parameters()):
          t.data.copy_(
              (1. - self.target_tau) * t.data + self.target_tau * s.data)
  \<close>
  \<open>zip\<close> stops at the shorter parameter list: the target tensors beyond it are not
  touched. Inside a pair the arithmetic is elementwise; the paired tensors have the same
  shape, the targets being deep copies of the live networks. For tensors of different
  shapes, where torch would broadcast or raise, \<open>lerp_tensor\<close> is not the code; the
  properties of the update are stated for networks of the same shape.
\<close>

definition lerp :: "real \<Rightarrow> real \<Rightarrow> real \<Rightarrow> real" where
  "lerp target_tau t s = (1 - target_tau) * t + target_tau * s"

definition lerp_tensor :: "real \<Rightarrow> tensor \<Rightarrow> tensor \<Rightarrow> tensor" where
  "lerp_tensor target_tau t s = map2 (lerp target_tau) t s"

fun soft_update_target :: "real \<Rightarrow> params \<Rightarrow> params \<Rightarrow> params" where
  "soft_update_target target_tau (t # target) (s # source) =
     lerp_tensor target_tau t s # soft_update_target target_tau target source"
| "soft_update_target target_tau target [] = target"
| "soft_update_target target_tau [] source = []"

text \<open>Two networks have the same architecture when their parameter tensors pair up.\<close>

definition same_shape :: "params \<Rightarrow> params \<Rightarrow> bool" where
  "same_shape target source = list_all2 (\<lambda>t s. length t = length s) target source"

section \<open>The learner and its collaborators\<close>

text \<open>
  The four networks of the learner. \<^verbatim>\<open>__init__\<close> builds \<^verbatim>\<open>actor\<close> and \<^verbatim>\<open>critic\<close> and
  takes \<^verbatim>\<open>actor_target = deepcopy(self.actor)\<close>, \<^verbatim>\<open>critic_target = deepcopy(self.critic)\<close>:
  four parameter lists with no storage in common. The store \<open>nets\<close> maps each network to
  its parameters, and an optimizer holds the name of the network whose parameters it was
  constructed over: what \<^verbatim>\<open>optimizer.step()\<close> writes, it writes there.
\<close>

datatype net = Actor | Critic | ActorTarget | CriticTarget

type_synonym obs = "real list list"
type_synonym acts = "real list list"

record 'o optimizer =
  opt_name :: string
  over :: net
  lr :: real
  opt_state :: 'o

text \<open>
  The \<^verbatim>\<open>info\<close> dictionary of an environment step, with the keys \<^verbatim>\<open>interact\<close> reads;
  \<^verbatim>\<open>"regional_rewards"\<close> may be absent.
\<close>

record info =
  regional_rewards :: "real list option"
  info_average_speed :: real
  agents_info :: "real list list"
  hdv_info :: "real list list"

text \<open>
  A sampled batch: \<^verbatim>\<open>batch.states\<close>, \<^verbatim>\<open>batch.actions\<close> and \<^verbatim>\<open>batch.rewards\<close>, one entry per
  sampled time step, each entry holding one row per agent of that step.
\<close>

record batch =
  b_states :: "real list list list"
  b_actions :: "real list list list"
  b_rewards :: "real list list"

text \<open>
  What the learner calls and this repository's \<^verbatim>\<open>src/\<close> does not hold is a parameter
  of the model: the environment (\<^verbatim>\<open>reset\<close>, \<^verbatim>\<open>step\<close>, \<^verbatim>\<open>len(controlled_vehicles)\<close>),
  the forward maps of \<^verbatim>\<open>ActorNetwork\<close> and \<^verbatim>\<open>CriticNetwork\<close> on one row of a batch (a
  network maps a batch row by row; the critic gives one scalar per row, its output size
  being 1), the step of a torch optimizer (given the optimizer's name, learning rate and
  state, the gradient-norm cap, the loss as a function of the parameters it is over, and
  their current value; it returns the new value and state),
  \<^verbatim>\<open>OnPolicyReplayMemory.push\<close> and \<^verbatim>\<open>sample\<close>, and the stream of draws of
  \<^verbatim>\<open>np.random.randn\<close>.
\<close>

record ('e, 'm, 'o) extern =
  env_reset :: "'e \<Rightarrow> 'e \<times> obs"
  env_step :: "'e \<Rightarrow> acts \<Rightarrow> error + ('e \<times> obs \<times> real \<times> bool \<times> info)"
  env_controlled_vehicles :: "'e \<Rightarrow> nat"
  actor_forward :: "params \<Rightarrow> real list \<Rightarrow> real list"
  critic_forward :: "params \<Rightarrow> real list \<Rightarrow> real list \<Rightarrow> real"
  optimizer_step ::
    "string \<Rightarrow> real \<Rightarrow> real option \<Rightarrow> 'o \<Rightarrow> (params \<Rightarrow> real option) \<Rightarrow> params \<Rightarrow> params \<times> 'o"
  memory_push :: "'m \<Rightarrow> obs list \<Rightarrow> acts list \<Rightarrow> real list list \<Rightarrow> 'm"
  memory_sample :: "'m \<Rightarrow> nat \<Rightarrow> (error + batch) \<times> 'm"
  randn :: "nat \<Rightarrow> real"

datatype reward_kind = Regional_R | Global_R

text \<open>
  The attributes of \<^verbatim>\<open>MAPPO\<close> that the modelled methods read or write. The three history
  lists \<^verbatim>\<open>episode_rewards\<close>, \<^verbatim>\<open>average_speed\<close> and \<^verbatim>\<open>epoch_steps\<close> start as \<^verbatim>\<open>[0]\<close> and only
  grow, so each is kept as its finished entries and its last, in-progress one.
  \<^verbatim>\<open>n_agents\<close> and \<^verbatim>\<open>episode_done\<close> exist only once \<^verbatim>\<open>interact\<close> has set them.
\<close>

record ('e, 'm, 'o) learner =
  env :: 'e
  env_state :: obs
  state_dim :: nat
  action_dim :: nat
  n_episodes :: int
  n_steps :: int
  max_steps :: "int option"
  roll_out_n_steps :: int
  reward_gamma :: real
  reward_scale :: real
  reward_type :: reward_kind
  memory :: 'm
  batch_size :: nat
  episodes_before_train :: int
  target_tau :: real
  target_update_steps :: int
  clip_param :: real
  max_grad_norm :: "real option"
  critic_loss :: string
  nets :: "net \<Rightarrow> params"
  actor_optimizer :: "'o optimizer option"
  critic_optimizer :: "'o optimizer option"
  n_agents :: "nat option"
  episode_done :: "bool option"
  episode_rewards :: "real list \<times> real"
  average_speed :: "real list \<times> real"
  epoch_steps :: "int list \<times> int"
  cav_pos :: "real list list"
  hdv_pos :: "real list list"
  rng :: nat

text \<open>
  A method mutates the learner and may raise: its outcome is the learner as the method
  leaves it, with the exception when one was raised.
\<close>

type_synonym ('e, 'm, 'o) outcome = "('e, 'm, 'o) learner \<times> error option"

section \<open>Construction: the optimizers of \<^verbatim>\<open>MAPPO.__init__\<close>\<close>

text \<open>
  \<^verbatim>\<open>
  self.actor_target = deepcopy(self.actor)
  self.critic_target = deepcopy(self.critic)
  if self.optimizer_type == "adam":
      self.actor_optimizer = Adam(self.actor.parameters(), lr=self.actor_lr)
      self.critic_optimizer = Adam(self.critic.parameters(), lr=self.critic_lr)
  elif self.optimizer_type == "rmsprop":
      self.actor_optimizer = RMSprop(self.actor.parameters(), lr=self.actor_lr)
      self.critic_optimizer = RMSprop(self.critic.parameters(), lr=self.critic_lr)
  \<close>
  With any other \<^verbatim>\<open>optimizer_type\<close> the two attributes are never set. \<open>o0\<close> is the state
  of a fresh optimizer, \<open>actor0\<close> and \<open>critic0\<close> the initial parameters of the two live
  networks.
\<close>

definition init_nets :: "params \<Rightarrow> params \<Rightarrow> net \<Rightarrow> params" where
  "init_nets actor0 critic0 =
     (\<lambda>k. case k of Actor \<Rightarrow> actor0 | Critic \<Rightarrow> critic0
               | ActorTarget \<Rightarrow> actor0 | CriticTarget \<Rightarrow> critic0)"

definition init_optimizers ::
    "string \<Rightarrow> real \<Rightarrow> real \<Rightarrow> 'o \<Rightarrow> 'o optimizer option \<times> 'o optimizer option" where
  "init_optimizers optimizer_type actor_lr critic_lr o0 =
     (if optimizer_type = ''adam'' then
        (Some \<lparr>opt_name = ''adam'', over = Actor, lr = actor_lr, opt_state = o0\<rparr>,
         Some \<lparr>opt_name = ''adam'', over = Critic, lr = critic_lr, opt_state = o0\<rparr>)
      else if optimizer_type = ''rmsprop'' then
        (Some \<lparr>opt_name = ''rmsprop'', over = Actor, lr = actor_lr, opt_state = o0\<rparr>,
         Some \<lparr>opt_name = ''rmsprop'', over = Critic, lr = critic_lr, opt_state = o0\<rparr>)
      else (None, None))"

text \<open>
  \<open>init\<close> takes the constructor's arguments as a learner record \<open>cfg\<close> whose
  hyperparameter fields are set, and fills in what \<^verbatim>\<open>__init__\<close> computes: the first
  environment state, the counters, the networks, the optimizers and the histories.
\<close>

definition init ::
    "('e, 'm, 'o) extern \<Rightarrow> ('e, 'm, 'o) learner \<Rightarrow> string \<Rightarrow> real \<Rightarrow> real \<Rightarrow> 'o
      \<Rightarrow> params \<Rightarrow> params \<Rightarrow> ('e, 'm, 'o) learner" where
  "init X cfg optimizer_type actor_lr critic_lr o0 actor0 critic0 =
     (let (e, st) = env_reset X (env cfg);
          (ao, co) = init_optimizers optimizer_type actor_lr critic_lr o0
      in cfg\<lparr>env := e, env_state := st, n_episodes := 0, n_steps := 0,
             nets := init_nets actor0 critic0,
             actor_optimizer := ao, critic_optimizer := co,
             n_agents := None, episode_done := None,
             episode_rewards := ([], 0), average_speed := ([], 0), epoch_steps := ([], 0),
             cav_pos := [], hdv_pos := []\<rparr>)"

section \<open>Tensors of a training batch\<close>

text \<open>
  \<^verbatim>\<open>to_tensor_var\<close> turns the nested lists of a batch into a tensor; \<^verbatim>\<open>view\<close> reads only
  its entries in row-major order, which \<open>flat3\<close> and \<open>concat\<close> give.
  \<^verbatim>\<open>t.view(-1, n, d)\<close> raises when \<open>n * d = 0\<close> or when the number of entries is not a
  multiple of \<open>n * d\<close>; otherwise it cuts the entries into rows of \<open>d\<close> and the rows into
  groups of \<open>n\<close>.
\<close>

fun chunks :: "nat \<Rightarrow> 'a list \<Rightarrow> 'a list list" where
  "chunks k xs = (if k = 0 \<or> xs = [] then [] else take k xs # chunks k (drop k xs))"

declare chunks.simps [simp del]

definition flat3 :: "real list list list \<Rightarrow> real list" where
  "flat3 t = concat (concat t)"

definition view3 :: "nat \<Rightarrow> nat \<Rightarrow> real list \<Rightarrow> error + real list list list" where
  "view3 n d xs =
     (if n * d = 0 \<or> length xs mod (n * d) \<noteq> 0 then Inl RuntimeError
      else Inr (chunks n (chunks d xs)))"

text \<open>
  \<^verbatim>\<open>
  states_var = to_tensor_var(batch.states, self.use_cuda).view(-1, self.n_agents, self.state_dim)
  actions_var = to_tensor_var(batch.actions, self.use_cuda).view(-1, self.n_agents, self.action_dim)
  rewards_var = to_tensor_var(batch.rewards, self.use_cuda).view(-1, self.n_agents, 1)
  \<close>
  The agent count of the three views is the learner's attribute \<^verbatim>\<open>self.n_agents\<close>. The
  memory stores the states, actions and rewards of the same steps, so the three views of
  a batch it returns have the same first dimension. For a batch where they differ the
  model raises at once; torch raises at the first operation that joins them, unless one
  of the first dimensions is 1, which it would broadcast. No property below is about
  such a batch.
\<close>

type_synonym tensors = "real list list list \<times> real list list list \<times> real list list list"

definition train_tensors :: "nat \<Rightarrow> nat \<Rightarrow> nat \<Rightarrow> batch \<Rightarrow> error + tensors" where
  "train_tensors n sd ad b =
     (case view3 n sd (flat3 (b_states b)) of
        Inl e \<Rightarrow> Inl e
      | Inr sv \<Rightarrow>
          (case view3 n ad (flat3 (b_actions b)) of
             Inl e \<Rightarrow> Inl e
           | Inr av \<Rightarrow>
               (case view3 n 1 (concat (b_rewards b)) of
                  Inl e \<Rightarrow> Inl e
                | Inr rv \<Rightarrow>
                    (if length sv = length av \<and> length av = length rv then Inr (sv, av, rv)
                     else Inl RuntimeError))))"

text \<open>\<^verbatim>\<open>t[:, agent_id, :]\<close>, and the entries of a tensor of shape \<open>(B, 1)\<close>.\<close>

definition agent_slice :: "nat \<Rightarrow> real list list list \<Rightarrow> real list list" where
  "agent_slice agent_id t = map (\<lambda>step. step ! agent_id) t"

definition column :: "real list list \<Rightarrow> real list" where
  "column t = map (\<lambda>row. row ! 0) t"

text \<open>\<^verbatim>\<open>th.mean\<close>: the mean of a tensor without entries is NaN, here \<open>None\<close>.\<close>

definition tensor_mean :: "real list \<Rightarrow> real option" where
  "tensor_mean xs = (if xs = [] then None else Some (sum_list xs / real (length xs)))"

definition clamp :: "real \<Rightarrow> real \<Rightarrow> real \<Rightarrow> real" where
  "clamp x lo hi = min (max x lo) hi"

text \<open>
  The product of a tensor of shape \<open>(B,)\<close> with one of shape \<open>(B, 1)\<close>. Broadcasting aligns
  shapes from the right, \<open>(1, B)\<close> against \<open>(B, 1)\<close>, and gives shape \<open>(B, B)\<close>: entry
  \<open>[i][j]\<close> is \<open>v[j] * col[i][0]\<close>.
\<close>

definition mul_vec_col :: "real list \<Rightarrow> real list \<Rightarrow> real list list" where
  "mul_vec_col v col = map (\<lambda>a. map (\<lambda>r. r * a) v) col"

section \<open>The update of one agent: the loop body of \<^verbatim>\<open>MAPPO.train\<close>\<close>

text \<open>
  \<^verbatim>\<open>
  values = self.critic_target(states_var[:, agent_id, :], actions_var[:, agent_id, :]).detach()
  advantages = rewards_var[:, agent_id, :] - values
  action_log_probs = self.actor(states_var[:, agent_id, :])
  action_log_probs = th.sum(action_log_probs * actions_var[:, agent_id, :], 1)
  old_action_log_probs = self.actor_target(states_var[:, agent_id, :]).detach()
  old_action_log_probs = th.sum(old_action_log_probs * actions_var[:, agent_id, :], 1)
  ratio = th.exp(action_log_probs - old_action_log_probs)
  surr1 = ratio * advantages
  surr2 = th.clamp(ratio, 1.0 - self.clip_param, 1.0 + self.clip_param) * advantages
  actor_loss = -th.mean(th.min(surr1, surr2))
  \<close>
  \<open>S\<close>, \<open>A\<close> and \<open>R\<close> are the agent's slices of the three tensors, of shapes
  \<open>(B, state_dim)\<close>, \<open>(B, action_dim)\<close> and \<open>(B, 1)\<close>. \<open>values\<close> and \<open>advantages\<close> have shape
  \<open>(B, 1)\<close>; \<^verbatim>\<open>th.sum(_, 1)\<close> removes the second dimension, so the two log-probability
  proxies and \<open>ratio\<close> have shape \<open>(B,)\<close>, and the two products are broadcast. The loss is
  a function of the live actor's parameters \<open>theta\<close>; the detached values are computed
  from the parameters \<open>theta_c\<close> of the critic target and \<open>theta_old\<close> of the actor
  target.
\<close>

definition log_prob_proxy ::
    "('e, 'm, 'o) extern \<Rightarrow> params \<Rightarrow> real list list \<Rightarrow> real list list \<Rightarrow> real list" where
  "log_prob_proxy X theta S A =
     map2 (\<lambda>s a. sum_list (map2 (*) (actor_forward X theta s) a)) S A"

definition advantages_of ::
    "('e, 'm, 'o) extern \<Rightarrow> params \<Rightarrow> real list list \<Rightarrow> real list list \<Rightarrow> real list list
      \<Rightarrow> real list" where
  "advantages_of X theta_c S A R =
     map2 (-) (column R) (map2 (critic_forward X theta_c) S A)"

definition ratio_of ::
    "('e, 'm, 'o) extern \<Rightarrow> params \<Rightarrow> params \<Rightarrow> real list list \<Rightarrow> real list list \<Rightarrow> real list" where
  "ratio_of X theta theta_old S A =
     map2 (\<lambda>new old. exp (new - old))
       (log_prob_proxy X theta S A) (log_prob_proxy X theta_old S A)"

definition actor_loss ::
    "('e, 'm, 'o) extern \<Rightarrow> real \<Rightarrow> params \<Rightarrow> params
      \<Rightarrow> real list list \<Rightarrow> real list list \<Rightarrow> real list list \<Rightarrow> params \<Rightarrow> real option" where
  "actor_loss X clip theta_c theta_old S A R theta =
     (let advantages = advantages_of X theta_c S A R;
          ratio = ratio_of X theta theta_old S A;
          surr1 = mul_vec_col ratio advantages;
          surr2 = mul_vec_col (map (\<lambda>r. clamp r (1 - clip) (1 + clip)) ratio) advantages
      in map_option uminus (tensor_mean (concat (map2 (map2 min) surr1 surr2))))"

text \<open>
  \<^verbatim>\<open>
  target_values = rewards_var[:, agent_id, :]
  values = self.critic(states_var[:, agent_id, :], actions_var[:, agent_id, :])
  if self.critic_loss == "huber":
      critic_loss = nn.functional.smooth_l1_loss(values, target_values)
  else:
      critic_loss = nn.MSELoss()(values, target_values)
  \<close>
\<close>

definition smooth_l1 :: "real \<Rightarrow> real" where
  "smooth_l1 d = (if \<bar>d\<bar> < 1 then d * d / 2 else \<bar>d\<bar> - 1 / 2)"

definition critic_loss_of ::
    "('e, 'm, 'o) extern \<Rightarrow> string
      \<Rightarrow> real list list \<Rightarrow> real list list \<Rightarrow> real list list \<Rightarrow> params \<Rightarrow> real option" where
  "critic_loss_of X kind S A R theta =
     (let target_values = column R;
          values = map2 (critic_forward X theta) S A
      in if kind = ''huber'' then tensor_mean (map2 (\<lambda>v t. smooth_l1 (v - t)) values target_values)
         else tensor_mean (map2 (\<lambda>v t. (v - t) * (v - t)) values target_values))"

text \<open>
  \<^verbatim>\<open>
  self.actor_optimizer.zero_grad()
  ...
  actor_loss.backward()
  if self.max_grad_norm is not None:
      nn.utils.clip_grad_norm_(self.actor.parameters(), self.max_grad_norm)
  self.actor_optimizer.step()
  \<close>
  The step writes the parameters the optimizer is over, and nothing else. The loss reaches
  them through the live network only: as a function of these parameters it is the loss
  with the store changed at the optimizer's network and the detached inputs left as they
  are. Reading \<^verbatim>\<open>self.actor_optimizer\<close> raises when the constructor did not set it.
\<close>

definition actor_update ::
    "('e, 'm, 'o) extern \<Rightarrow> tensors \<Rightarrow> nat \<Rightarrow> ('e, 'm, 'o) learner \<Rightarrow> ('e, 'm, 'o) outcome" where
  "actor_update X tv agent_id s =
     (case actor_optimizer s of
        None \<Rightarrow> (s, Some AttributeError)
      | Some opt \<Rightarrow>
          (let (sv, av, rv) = tv;
               S = agent_slice agent_id sv; A = agent_slice agent_id av;
               R = agent_slice agent_id rv;
               cur = nets s;
               loss = (\<lambda>p. actor_loss X (clip_param s) (cur CriticTarget) (cur ActorTarget)
                              S A R ((cur(over opt := p)) Actor));
               (p', o') = optimizer_step X (opt_name opt) (lr opt) (max_grad_norm s)
                            (opt_state opt) loss (cur (over opt))
           in (s\<lparr>nets := cur(over opt := p'),
                  actor_optimizer := Some (opt\<lparr>opt_state := o'\<rparr>)\<rparr>, None)))"

definition critic_update ::
    "('e, 'm, 'o) extern \<Rightarrow> tensors \<Rightarrow> nat \<Rightarrow> ('e, 'm, 'o) learner \<Rightarrow> ('e, 'm, 'o) outcome" where
  "critic_update X tv agent_id s =
     (case critic_optimizer s of
        None \<Rightarrow> (s, Some AttributeError)
      | Some opt \<Rightarrow>
          (let (sv, av, rv) = tv;
               S = agent_slice agent_id sv; A = agent_slice agent_id av;
               R = agent_slice agent_id rv;
               cur = nets s;
               loss = (\<lambda>p. critic_loss_of X (critic_loss s) S A R ((cur(over opt := p)) Critic));
               (p', o') = optimizer_step X (opt_name opt) (lr opt) (max_grad_norm s)
                            (opt_state opt) loss (cur (over opt))
           in (s\<lparr>nets := cur(over opt := p'),
                  critic_optimizer := Some (opt\<lparr>opt_state := o'\<rparr>)\<rparr>, None)))"

definition agent_update ::
    "('e, 'm, 'o) extern \<Rightarrow> tensors \<Rightarrow> nat \<Rightarrow> ('e, 'm, 'o) learner \<Rightarrow> ('e, 'm, 'o) outcome" where
  "agent_update X tv agent_id s =
     (case actor_update X tv agent_id s of
        (s1, Some e) \<Rightarrow> (s1, Some e)
      | (s1, None) \<Rightarrow> critic_update X tv agent_id s1)"

text \<open>\<^verbatim>\<open>for agent_id in range(self.n_agents)\<close>: an exception leaves the loop.\<close>

fun agents_loop ::
    "('e, 'm, 'o) extern \<Rightarrow> tensors \<Rightarrow> nat list \<Rightarrow> ('e, 'm, 'o) learner \<Rightarrow> ('e, 'm, 'o) outcome" where
  "agents_loop X tv [] s = (s, None)"
| "agents_loop X tv (agent_id # ids) s =
     (case agent_update X tv agent_id s of
        (s1, Some e) \<Rightarrow> (s1, Some e)
      | (s1, None) \<Rightarrow> agents_loop X tv ids s1)"

section \<open>\<^verbatim>\<open>MAPPO.train\<close>\<close>

text \<open>
  \<^verbatim>\<open>
  if self.n_episodes % self.target_update_steps == 0 and self.n_episodes > 0:
      self._soft_update_target(self.actor_target, self.actor)
      self._soft_update_target(self.critic_target, self.critic)
  \<close>
  \<^verbatim>\<open>%\<close> on Python integers raises on a zero divisor and otherwise takes the sign of the
  divisor, as \<open>mod\<close> on \<open>int\<close> does. The modulus is evaluated first.
\<close>

definition update_targets :: "('e, 'm, 'o) learner \<Rightarrow> ('e, 'm, 'o) outcome" where
  "update_targets s =
     (if target_update_steps s = 0 then (s, Some ZeroDivisionError)
      else if n_episodes s mod target_update_steps s = 0 \<and> n_episodes s > 0 then
        (let nets1 = (nets s)(ActorTarget :=
                        soft_update_target (target_tau s) (nets s ActorTarget) (nets s Actor));
             nets2 = nets1(CriticTarget :=
                        soft_update_target (target_tau s) (nets1 CriticTarget) (nets1 Critic))
         in (s\<lparr>nets := nets2\<rparr>, None))
      else (s, None))"

text \<open>
  \<^verbatim>\<open>
  def train(self):
      if self.n_episodes <= self.episodes_before_train:
          pass

      batch = self.memory.sample(self.batch_size)
      ...
  \<close>
  \<open>train_body\<close> is everything below the first statement.
\<close>

definition train_body :: "('e, 'm, 'o) extern \<Rightarrow> ('e, 'm, 'o) learner \<Rightarrow> ('e, 'm, 'o) outcome" where
  "train_body X s =
     (case memory_sample X (memory s) (batch_size s) of
        (Inl e, m) \<Rightarrow> (s\<lparr>memory := m\<rparr>, Some e)
      | (Inr b, m) \<Rightarrow>
          (let s1 = s\<lparr>memory := m\<rparr> in
           case n_agents s1 of
             None \<Rightarrow> (s1, Some AttributeError)
           | Some n \<Rightarrow>
               (case train_tensors n (state_dim s1) (action_dim s1) b of
                  Inl e \<Rightarrow> (s1, Some e)
                | Inr tv \<Rightarrow>
                    (case agents_loop X tv [0..<n] s1 of
                       (s2, Some e) \<Rightarrow> (s2, Some e)
                     | (s2, None) \<Rightarrow> update_targets s2))))"

definition train :: "('e, 'm, 'o) extern \<Rightarrow> ('e, 'm, 'o) learner \<Rightarrow> ('e, 'm, 'o) outcome" where
  "train X s =
     (let u = (if n_episodes s \<le> episodes_before_train s then () else ())
      in train_body X s)"

section \<open>Choosing actions and valuing a state\<close>

text \<open>
  \<^verbatim>\<open>
  def _continuous_action(self, state, n_agents):
      state_var = to_tensor_var([state], self.use_cuda)
      continuous_action = []
      for agent_id in range(n_agents):
          continuous_action_var = self.actor(state_var[:, agent_id, :])
          continuous_action.append(continuous_action_var.data.numpy()[0])
      return continuous_action
  \<close>
  The loop reads the live actor at the rows \<open>0 .. n_agents - 1\<close> of the state and changes
  nothing; a state with fewer rows makes the index fail.
\<close>

definition continuous_action ::
    "('e, 'm, 'o) extern \<Rightarrow> ('e, 'm, 'o) learner \<Rightarrow> obs \<Rightarrow> nat \<Rightarrow> error + acts" where
  "continuous_action X s state n =
     (if n \<le> length state then
        Inr (map (\<lambda>agent_id. actor_forward X (nets s Actor) (state ! agent_id)) [0..<n])
      else Inl IndexError)"

text \<open>
  \<^verbatim>\<open>
  for pi in continuous_actions:
      noise = c * np.random.randn(*pi.shape)
      actions.append(pi + noise)
  \<close>
  with \<open>c = 0.5\<close> in \<^verbatim>\<open>exploration_action\<close> and \<open>c = 0.01\<close> in \<^verbatim>\<open>action\<close>. The draws are
  taken from the stream \<open>rn\<close> at the positions \<open>k, k + 1, ...\<close>; the position after the
  last draw is returned.
\<close>

fun add_noise :: "(nat \<Rightarrow> real) \<Rightarrow> real \<Rightarrow> nat \<Rightarrow> acts \<Rightarrow> acts \<times> nat" where
  "add_noise rn c k [] = ([], k)"
| "add_noise rn c k (p # ps) =
     (let noise = map (\<lambda>j. c * rn (k + j)) [0..<length p];
          (rest, k') = add_noise rn c (k + length p) ps
      in (map2 (+) p noise # rest, k'))"

definition exploration_action ::
    "('e, 'm, 'o) extern \<Rightarrow> ('e, 'm, 'o) learner \<Rightarrow> obs \<Rightarrow> nat \<Rightarrow> error + acts \<times> nat" where
  "exploration_action X s state n =
     (case continuous_action X s state n of
        Inl e \<Rightarrow> Inl e
      | Inr continuous_actions \<Rightarrow> Inr (add_noise (randn X) (1/2) (rng s) continuous_actions))"

definition action ::
    "('e, 'm, 'o) extern \<Rightarrow> ('e, 'm, 'o) learner \<Rightarrow> obs \<Rightarrow> nat \<Rightarrow> error + acts \<times> nat" where
  "action X s state n =
     (case continuous_action X s state n of
        Inl e \<Rightarrow> Inl e
      | Inr continuous_actions \<Rightarrow> Inr (add_noise (randn X) (1/100) (rng s) continuous_actions))"

text \<open>
  \<^verbatim>\<open>
  def value(self, state, action):
      state_var = to_tensor_var([state], self.use_cuda)
      action_var = to_tensor_var([action], self.use_cuda)
      values = [0] * self.n_agents
      for agent_id in range(self.n_agents):
          value_var = self.critic(state_var[:, agent_id, :], action_var[:, agent_id, :])
          values[agent_id] = value_var.data.numpy()[0]
      return values
  \<close>
\<close>

definition "value" ::
    "('e, 'm, 'o) extern \<Rightarrow> ('e, 'm, 'o) learner \<Rightarrow> obs \<Rightarrow> acts \<Rightarrow> error + real list" where
  "value X s state act =
     (case n_agents s of
        None \<Rightarrow> Inl AttributeError
      | Some n \<Rightarrow>
          (if n \<le> length state \<and> n \<le> length act then
             Inr (map (\<lambda>agent_id. critic_forward X (nets s Critic) (state ! agent_id) (act ! agent_id))
                    [0..<n])
           else Inl IndexError))"

section \<open>Collecting a rollout: the loop of \<^verbatim>\<open>MAPPO.interact\<close>\<close>

text \<open>The local variables of \<^verbatim>\<open>interact\<close>; \<^verbatim>\<open>final_state\<close> is unbound before the first step.\<close>

record rollout =
  ro_states :: "obs list"
  ro_actions :: "acts list"
  ro_rewards :: "real list list"
  ro_done :: bool
  ro_average_speed :: real
  ro_final_state :: "obs option"

definition empty_rollout :: rollout where
  "empty_rollout = \<lparr>ro_states = [], ro_actions = [], ro_rewards = [], ro_done = True,
                     ro_average_speed = 0, ro_final_state = None\<rparr>"

text \<open>
  \<^verbatim>\<open>
  states.append(self.env_state)
  action = self.exploration_action(self.env_state, self.n_agents)
  next_state, global_reward, done, info = self.env.step(tuple(action))
  actions.append(action)
  self.episode_rewards[-1] += global_reward
  self.epoch_steps[-1] += 1
  if self.reward_type == "regional_R":
      reward = info["regional_rewards"]
  elif self.reward_type == "global_R":
      reward = [global_reward] * self.n_agents
  rewards.append(reward)
  average_speed += info["average_speed"]
  final_state = next_state
  self.env_state = next_state
  self.n_steps += 1
  self.cav_pos.extend(info["agents_info"])
  self.hdv_pos.extend(info["hdv_info"])
  if done:
      self.env_state, _ = self.env.reset()
      break
  \<close>
\<close>

definition step_reward :: "reward_kind \<Rightarrow> nat \<Rightarrow> real \<Rightarrow> info \<Rightarrow> error + real list" where
  "step_reward kind n global_reward step_info =
     (case kind of
        Regional_R \<Rightarrow> (case regional_rewards step_info of None \<Rightarrow> Inl KeyError | Some r \<Rightarrow> Inr r)
      | Global_R \<Rightarrow> Inr (replicate n global_reward))"

definition rollout_step ::
    "('e, 'm, 'o) extern \<Rightarrow> nat \<Rightarrow> ('e, 'm, 'o) learner \<times> rollout
      \<Rightarrow> (('e, 'm, 'o) learner \<times> rollout) \<times> error option" where
  "rollout_step X n sr =
     (let (s, ro) = sr;
          ro0 = ro\<lparr>ro_states := ro_states ro @ [env_state s]\<rparr>
      in case exploration_action X s (env_state s) n of
           Inl e \<Rightarrow> ((s, ro0), Some e)
         | Inr (act, k) \<Rightarrow>
             (let s0 = s\<lparr>rng := k\<rparr> in
              case env_step X (env s0) act of
                Inl e \<Rightarrow> ((s0, ro0), Some e)
              | Inr (e1, next_state, global_reward, done, step_info) \<Rightarrow>
                  (let s1 = s0\<lparr>env := e1,
                               episode_rewards :=
                                 (fst (episode_rewards s0), snd (episode_rewards s0) + global_reward),
                               epoch_steps := (fst (epoch_steps s0), snd (epoch_steps s0) + 1)\<rparr>;
                       ro1 = ro0\<lparr>ro_actions := ro_actions ro0 @ [act], ro_done := done\<rparr>
                   in case step_reward (reward_type s1) n global_reward step_info of
                        Inl e \<Rightarrow> ((s1, ro1), Some e)
                      | Inr reward \<Rightarrow>
                          (let ro2 = ro1\<lparr>ro_rewards := ro_rewards ro1 @ [reward],
                                          ro_average_speed :=
                                            ro_average_speed ro1 + info_average_speed step_info,
                                          ro_final_state := Some next_state\<rparr>;
                               s2 = s1\<lparr>env_state := next_state, n_steps := n_steps s1 + 1,
                                       cav_pos := cav_pos s1 @ agents_info step_info,
                                       hdv_pos := hdv_pos s1 @ hdv_info step_info\<rparr>
                           in if done then
                                (let (e2, st) = env_reset X (env s2)
                                 in ((s2\<lparr>env := e2, env_state := st\<rparr>, ro2), None))
                              else ((s2, ro2), None)))))"

text \<open>
  \<^verbatim>\<open>for i in range(self.roll_out_n_steps)\<close>, left by \<^verbatim>\<open>break\<close> when the step ended the
  episode and by an exception.
\<close>

fun rollout_loop ::
    "('e, 'm, 'o) extern \<Rightarrow> nat \<Rightarrow> nat \<Rightarrow> ('e, 'm, 'o) learner \<times> rollout
      \<Rightarrow> (('e, 'm, 'o) learner \<times> rollout) \<times> error option" where
  "rollout_loop X n 0 sr = (sr, None)"
| "rollout_loop X n (Suc k) sr =
     (case rollout_step X n sr of
        (sr1, Some e) \<Rightarrow> (sr1, Some e)
      | (sr1, None) \<Rightarrow> if ro_done (snd sr1) then (sr1, None) else rollout_loop X n k sr1)"

section \<open>The bootstrap value\<close>

text \<open>
  \<^verbatim>\<open>
  if done:
      final_value = [0.0] * self.n_agents
      self.n_episodes += 1
      self.episode_done = True
      self.episode_rewards.append(0)
      self.average_speed[-1] = average_speed / self.epoch_steps[-1]
      self.average_speed.append(0)
      self.epoch_steps.append(0)
      self.cav_pos = []
      self.hdv_pos = []
  else:
      self.episode_done = False
      final_action = self.action(final_state, self.n_agents)
      final_value = self.value(final_state, final_action)
  \<close>
  \<open>n\<close> is \<^verbatim>\<open>self.n_agents\<close>, which \<^verbatim>\<open>interact\<close> has set before the loop.
\<close>

definition final_value_of ::
    "('e, 'm, 'o) extern \<Rightarrow> nat \<Rightarrow> rollout \<Rightarrow> ('e, 'm, 'o) learner
      \<Rightarrow> ('e, 'm, 'o) learner \<times> (error + real list)" where
  "final_value_of X n ro s =
     (if ro_done ro then
        (let s1 = s\<lparr>n_episodes := n_episodes s + 1, episode_done := Some True,
                    episode_rewards := (fst (episode_rewards s) @ [snd (episode_rewards s)], 0)\<rparr>
         in if snd (epoch_steps s1) = 0 then (s1, Inl ZeroDivisionError)
            else
              (s1\<lparr>average_speed :=
                     (fst (average_speed s1)
                        @ [ro_average_speed ro / real_of_int (snd (epoch_steps s1))], 0),
                   epoch_steps := (fst (epoch_steps s1) @ [snd (epoch_steps s1)], 0),
                   cav_pos := [], hdv_pos := []\<rparr>,
               Inr (replicate n 0)))
      else
        (let s1 = s\<lparr>episode_done := Some False\<rparr> in
         case ro_final_state ro of
           None \<Rightarrow> (s1, Inl UnboundLocalError)
         | Some final_state \<Rightarrow>
             (case action X s1 final_state n of
                Inl e \<Rightarrow> (s1, Inl e)
              | Inr (final_action, k) \<Rightarrow>
                  (let s2 = s1\<lparr>rng := k\<rparr> in (s2, value X s2 final_state final_action)))))"

text \<open>
  The bootstrap value as the specification words it: the critic target at the final state
  and the actor's own output there, without noise.
\<close>

definition bootstrap_spec ::
    "('e, 'm, 'o) extern \<Rightarrow> ('e, 'm, 'o) learner \<Rightarrow> obs \<Rightarrow> nat \<Rightarrow> real list" where
  "bootstrap_spec X s final_state n =
     map (\<lambda>agent_id. critic_forward X (nets s CriticTarget) (final_state ! agent_id)
                       (actor_forward X (nets s Actor) (final_state ! agent_id)))
       [0..<n]"

section \<open>Scaling and discounting the rewards of a rollout\<close>

text \<open>
  \<^verbatim>\<open>
  if self.reward_scale > 0:
      rewards = np.array(rewards) / self.reward_scale

  for agent_id in range(self.n_agents):
      rewards[:, agent_id] = self._discount_reward(rewards[:, agent_id], final_value[agent_id])

  rewards = rewards.tolist()
  \<close>
  \<^verbatim>\<open>rewards\<close> is a Python list of lists until the division makes it a two-dimensional
  array, which it does only under the guard. A list accepts neither the index
  \<^verbatim>\<open>[:, agent_id]\<close> nor \<^verbatim>\<open>tolist()\<close>. \<^verbatim>\<open>np.array\<close> needs rows of one length (it raises
  \<^verbatim>\<open>ValueError\<close> otherwise); the array of no rows is one-dimensional and has no column.
\<close>

datatype rewards_var = PyList "real list list" | NdArray "real list list"

definition rectangular :: "real list list \<Rightarrow> bool" where
  "rectangular rows = list_all (\<lambda>r. length r = length (hd rows)) rows"

definition scale_rewards :: "real \<Rightarrow> real list list \<Rightarrow> error + rewards_var" where
  "scale_rewards scale rewards =
     (if scale > 0 then
        (if rectangular rewards then Inr (NdArray (map (map (\<lambda>r. r / scale)) rewards))
         else Inl ValueError)
      else Inr (PyList rewards))"

definition get_column :: "nat \<Rightarrow> real list list \<Rightarrow> real list" where
  "get_column j rows = map (\<lambda>r. r ! j) rows"

definition set_column :: "nat \<Rightarrow> real list list \<Rightarrow> real list \<Rightarrow> real list list" where
  "set_column j rows vals = map2 (\<lambda>r v. r[j := v]) rows vals"

definition discount_agent ::
    "real \<Rightarrow> real list \<Rightarrow> nat \<Rightarrow> rewards_var \<Rightarrow> error + rewards_var" where
  "discount_agent g final_value agent_id rv =
     (case rv of
        PyList rows \<Rightarrow> Inl TypeError
      | NdArray rows \<Rightarrow>
          (if rows = [] \<or> length (hd rows) \<le> agent_id \<or> length final_value \<le> agent_id
           then Inl IndexError
           else Inr (NdArray (set_column agent_id rows
                       (discount_reward g (get_column agent_id rows) (final_value ! agent_id))))))"

fun discount_agents ::
    "real \<Rightarrow> real list \<Rightarrow> nat list \<Rightarrow> rewards_var \<Rightarrow> error + rewards_var" where
  "discount_agents g final_value [] rv = Inr rv"
| "discount_agents g final_value (agent_id # ids) rv =
     (case discount_agent g final_value agent_id rv of
        Inl e \<Rightarrow> Inl e
      | Inr rv1 \<Rightarrow> discount_agents g final_value ids rv1)"

definition tolist :: "rewards_var \<Rightarrow> error + real list list" where
  "tolist rv = (case rv of PyList rows \<Rightarrow> Inl AttributeError | NdArray rows \<Rightarrow> Inr rows)"

definition process_rewards ::
    "real \<Rightarrow> real \<Rightarrow> nat \<Rightarrow> real list \<Rightarrow> real list list \<Rightarrow> error + real list list" where
  "process_rewards scale g n final_value rewards =
     (case scale_rewards scale rewards of
        Inl e \<Rightarrow> Inl e
      | Inr rv \<Rightarrow>
          (case discount_agents g final_value [0..<n] rv of
             Inl e \<Rightarrow> Inl e
           | Inr rv1 \<Rightarrow> tolist rv1))"

section \<open>\<^verbatim>\<open>MAPPO.interact\<close> and the training loop of \<^verbatim>\<open>run_mappo.py\<close>\<close>

text \<open>
  \<^verbatim>\<open>
  def interact(self):
      if (self.max_steps is not None) and (self.n_steps >= self.max_steps):
          self.env_state, _ = self.env.reset()
          self.n_steps = 0
      ...
      self.n_agents = len(self.env.controlled_vehicles)
      for i in range(self.roll_out_n_steps): ...
      ...
      self.memory.push(states, actions, rewards)
  \<close>
\<close>

definition reset_if_over :: "('e, 'm, 'o) extern \<Rightarrow> ('e, 'm, 'o) learner \<Rightarrow> ('e, 'm, 'o) learner" where
  "reset_if_over X s =
     (case max_steps s of
        None \<Rightarrow> s
      | Some ms \<Rightarrow>
          if n_steps s \<ge> ms then
            (let (e, st) = env_reset X (env s) in s\<lparr>env := e, env_state := st, n_steps := 0\<rparr>)
          else s)"

definition interact :: "('e, 'm, 'o) extern \<Rightarrow> ('e, 'm, 'o) learner \<Rightarrow> ('e, 'm, 'o) outcome" where
  "interact X s =
     (let s0 = reset_if_over X s;
          n = env_controlled_vehicles X (env s0);
          s1 = s0\<lparr>n_agents := Some n\<rparr>
      in case rollout_loop X n (nat (roll_out_n_steps s1)) (s1, empty_rollout) of
           ((s2, ro), Some e) \<Rightarrow> (s2, Some e)
         | ((s2, ro), None) \<Rightarrow>
             (case final_value_of X n ro s2 of
                (s3, Inl e) \<Rightarrow> (s3, Some e)
              | (s3, Inr final_value) \<Rightarrow>
                  (case process_rewards (reward_scale s3) (reward_gamma s3) n final_value
                          (ro_rewards ro) of
                     Inl e \<Rightarrow> (s3, Some e)
                   | Inr rewards \<Rightarrow>
                       (s3\<lparr>memory := memory_push X (memory s3) (ro_states ro) (ro_actions ro)
                                       rewards\<rparr>, None))))"

text \<open>
  \<^verbatim>\<open>
  while mappo.n_episodes < MAX_EPISODES:
      mappo.interact()
      if mappo.n_episodes >= EPISODES_BEFORE_TRAIN:
          mappo.train()
  \<close>
  One pass through the first two statements of the loop body of \<^verbatim>\<open>run_mappo.train\<close>.
\<close>

definition loop_pass ::
    "('e, 'm, 'o) extern \<Rightarrow> int \<Rightarrow> ('e, 'm, 'o) learner \<Rightarrow> ('e, 'm, 'o) outcome" where
  "loop_pass X EPISODES_BEFORE_TRAIN s =
     (case interact X s of
        (s1, Some e) \<Rightarrow> (s1, Some e)
      | (s1, None) \<Rightarrow>
          if n_episodes s1 \<ge> EPISODES_BEFORE_TRAIN then train X s1 else (s1, None))"

text \<open>
  The live/target discipline: every optimizer the learner holds is over a live network.
\<close>

definition live_optimizers :: "('e, 'm, 'o) learner \<Rightarrow> bool" where
  "live_optimizers s =
     ((case actor_optimizer s of None \<Rightarrow> True | Some opt \<Rightarrow> over opt = Actor \<or> over opt = Critic)
      \<and> (case critic_optimizer s of None \<Rightarrow> True | Some opt \<Rightarrow> over opt = Actor \<or> over opt = Critic))"

section \<open>The environment step: \<^verbatim>\<open>LaneChnageMARL.step\<close>\<close>

text \<open>
  The step of \<^verbatim>\<open>highway_env/envs/lanechange_env.py\<close> tests floats with \<^verbatim>\<open>np.isnan\<close>, so here a
  float is NaN or a number. The step copies floats and never computes with them.
\<close>

datatype float64 = NaN | Num real

definition isnan :: "float64 \<Rightarrow> bool" where
  "isnan x = (case x of NaN \<Rightarrow> True | Num r \<Rightarrow> False)"

record vehicle =
  position :: "float64 \<times> float64"
  speed :: float64
  crashed :: bool
  local_reward :: float64

text \<open>
  The environment: its controlled vehicles, its step counter, the two entries of
  \<^verbatim>\<open>config\<close> that \<^verbatim>\<open>_agent_is_terminal\<close> reads, and the rest of it (road, other
  vehicles), which the step hands to its collaborators.
\<close>

record 'w road_env =
  controlled_vehicles :: "vehicle list"
  steps :: int
  duration :: int
  policy_frequency :: int
  world :: 'w

text \<open>The keys that the step adds to the \<^verbatim>\<open>info\<close> of the base class, which is \<open>base_info\<close>.\<close>

record 'i step_result_info =
  base_info :: 'i
  agents_dones :: "bool list"
  step_agents_info :: "float64 list list"
  step_hdv_info :: "float64 list list"
  agents_rewards :: "float64 list"

text \<open>
  What the step calls outside \<^verbatim>\<open>src/\<close>: \<^verbatim>\<open>AbstractEnv.step\<close>, which simulates and
  returns the observation (one matrix per agent), the reward, the terminal flag and its
  own \<^verbatim>\<open>info\<close>, or raises; \<^verbatim>\<open>v.lane.local_coordinates(v.position)\<close>; and
  \<^verbatim>\<open>_agent_reward\<close>, whose arithmetic goes through \<^verbatim>\<open>utils.lmap\<close> and
  \<^verbatim>\<open>_compute_headway_distance\<close> and whose result the step only stores.
\<close>

record ('w, 'i) env_extern =
  base_step ::
    "'w road_env \<Rightarrow> acts
      \<Rightarrow> error + (float64 list list list \<times> float64 \<times> bool \<times> 'i \<times> 'w road_env)"
  local_coordinates :: "vehicle \<Rightarrow> float64 \<times> float64"
  agent_reward :: "'w road_env \<Rightarrow> acts \<Rightarrow> vehicle \<Rightarrow> error + float64"

text \<open>
  \<^verbatim>\<open>
  def _agent_is_terminal(self, vehicle: Vehicle) -> bool:
      return (
          vehicle.crashed
          or self.steps >= self.config["duration"] * self.config["policy_frequency"]
      )
  \<close>
\<close>

definition agent_is_terminal :: "'w road_env \<Rightarrow> vehicle \<Rightarrow> bool" where
  "agent_is_terminal road v = (crashed v \<or> steps road \<ge> duration road * policy_frequency road)"

text \<open>
  \<^verbatim>\<open>
  for v in self.controlled_vehicles:
      agent_info.append([v.position[0], v.position[1], v.speed])
      local_coords = v.lane.local_coordinates(v.position)
      local_info.append([local_coords[0], local_coords[1], v.speed])
      if np.isnan(v.position).any():
          raise ValueError("Vehicle position is NaN")
  \<close>
\<close>

definition position_isnan :: "vehicle \<Rightarrow> bool" where
  "position_isnan v = (isnan (fst (position v)) \<or> isnan (snd (position v)))"

fun vehicles_info ::
    "(vehicle \<Rightarrow> float64 \<times> float64) \<Rightarrow> vehicle list
      \<Rightarrow> float64 list list \<times> float64 list list
      \<Rightarrow> error + (float64 list list \<times> float64 list list)" where
  "vehicles_info lc [] acc = Inr acc"
| "vehicles_info lc (v # vs) acc =
     (let agent_info = fst acc @ [[fst (position v), snd (position v), speed v]];
          local_coords = lc v;
          local_info = snd acc @ [[fst local_coords, snd local_coords, speed v]]
      in if position_isnan v then Inl ValueError
         else vehicles_info lc vs (agent_info, local_info))"

text \<open>
  \<^verbatim>\<open>
  for vehicle in self.controlled_vehicles:
      vehicle.local_reward = self._agent_reward(action, vehicle)
  \<close>
\<close>

fun assign_rewards :: "(vehicle \<Rightarrow> error + float64) \<Rightarrow> vehicle list \<Rightarrow> error + vehicle list" where
  "assign_rewards f [] = Inr []"
| "assign_rewards f (v # vs) =
     (case f v of
        Inl e \<Rightarrow> Inl e
      | Inr r \<Rightarrow>
          (case assign_rewards f vs of
             Inl e \<Rightarrow> Inl e
           | Inr vs1 \<Rightarrow> Inr (v\<lparr>local_reward := r\<rparr> # vs1)))"

text \<open>
  \<^verbatim>\<open>obs = np.asarray(obs).reshape((len(obs), -1))\<close>: one row per agent. With no agent the
  first dimension is 0 and numpy cannot infer the second, so it raises; with agents whose
  observations have no entry the rows are empty.
\<close>

definition reshape_obs :: "float64 list list list \<Rightarrow> error + float64 list list" where
  "reshape_obs obs = (if obs = [] then Inl ValueError else Inr (map concat obs))"

text \<open>
  \<^verbatim>\<open>
  def step(self, action):
      agent_info = []
      local_info = []
      obs, reward, done, info = super().step(action)
      info["agents_dones"] = tuple(
          self._agent_is_terminal(vehicle) for vehicle in self.controlled_vehicles)
      for v in self.controlled_vehicles: ...
      info["agents_info"] = agent_info
      info["hdv_info"] = local_info
      for vehicle in self.controlled_vehicles:
          vehicle.local_reward = self._agent_reward(action, vehicle)
      info["agents_rewards"] = tuple(
          vehicle.local_reward for vehicle in self.controlled_vehicles)
      obs = np.asarray(obs).reshape((len(obs), -1))
      return obs, reward, done, info
  \<close>
  The observation is tested by no statement of the step.
\<close>

definition step ::
    "('w, 'i) env_extern \<Rightarrow> acts \<Rightarrow> 'w road_env
      \<Rightarrow> error + (float64 list list \<times> float64 \<times> bool \<times> 'i step_result_info \<times> 'w road_env)" where
  "step E act road =
     (case base_step E road act of
        Inl e \<Rightarrow> Inl e
      | Inr (obs, reward, done, binfo, road1) \<Rightarrow>
          (let dones = map (agent_is_terminal road1) (controlled_vehicles road1) in
           case vehicles_info (local_coordinates E) (controlled_vehicles road1) ([], []) of
             Inl e \<Rightarrow> Inl e
           | Inr (agent_info, local_info) \<Rightarrow>
               (case assign_rewards (agent_reward E road1 act) (controlled_vehicles road1) of
                  Inl e \<Rightarrow> Inl e
                | Inr vs \<Rightarrow>
                    (case reshape_obs obs of
                       Inl e \<Rightarrow> Inl e
                     | Inr obs1 \<Rightarrow>
                         Inr (obs1, reward, done,
                              \<lparr>base_info = binfo, agents_dones = dones,
                               step_agents_info = agent_info, step_hdv_info = local_info,
                               agents_rewards = map local_reward vs\<rparr>,
                              road1\<lparr>controlled_vehicles := vs\<rparr>)))))"

definition has_nan :: "float64 list list \<Rightarrow> bool" where
  "has_nan obs = list_ex (list_ex isnan) obs"

section \<open>A small world to run the learner in\<close>

text \<open>
  Concrete collaborators, for evaluating the model: an environment with one vehicle whose
  every step returns the observation \<open>[[1]]\<close>, reward \<open>1\<close> and no end of episode; networks
  with a single weight, the actor giving \<open>w * sum s\<close> and the critic
  \<open>w * (sum s + sum a)\<close>; an optimizer whose step adds the learning rate to every
  parameter; a memory that is the batch it returns; and a stream of draws that starts
  with \<open>0\<close> and goes on with \<open>1\<close>.
\<close>

definition weight :: "params \<Rightarrow> real" where
  "weight theta = sum_list (concat theta)"

definition ex_extern :: "(unit, batch, unit) extern" where
  "ex_extern =
     \<lparr>env_reset = (\<lambda>e. (e, [[0]])),
      env_step = (\<lambda>e a. Inr (e, [[1]], 1, False,
                    \<lparr>regional_rewards = None, info_average_speed = 0,
                     agents_info = [], hdv_info = []\<rparr>)),
      env_controlled_vehicles = (\<lambda>e. 1),
      actor_forward = (\<lambda>theta s. [weight theta * sum_list s]),
      critic_forward = (\<lambda>theta s a. weight theta * (sum_list s + sum_list a)),
      optimizer_step = (\<lambda>name rate cap ost loss p. (map (map (\<lambda>x. x + rate)) p, ost)),
      memory_push = (\<lambda>m S A R. \<lparr>b_states = b_states m @ S, b_actions = b_actions m @ A,
                                 b_rewards = b_rewards m @ R\<rparr>),
      memory_sample = (\<lambda>m k. (Inr m, m)),
      randn = (\<lambda>k. if k = 0 then 0 else 1)\<rparr>"

definition ex_batch :: batch where
  "ex_batch = \<lparr>b_states = [[[0]], [[1]]], b_actions = [[[1]], [[1]]], b_rewards = [[0], [1]]\<rparr>"

definition ex_learner :: "(unit, batch, unit) learner" where
  "ex_learner =
     \<lparr>env = (), env_state = [[0]], state_dim = 1, action_dim = 1,
      n_episodes = 0, n_steps = 0, max_steps = None, roll_out_n_steps = 1,
      reward_gamma = 1/2, reward_scale = 20, reward_type = Global_R,
      memory = ex_batch, batch_size = 2, episodes_before_train = 100,
      target_tau = 1, target_update_steps = 5, clip_param = 1/5,
      max_grad_norm = Some (1/2), critic_loss = ''mse'',
      nets = init_nets [[1]] [[1]],
      actor_optimizer = Some \<lparr>opt_name = ''rmsprop'', over = Actor, lr = 1, opt_state = ()\<rparr>,
      critic_optimizer = Some \<lparr>opt_name = ''rmsprop'', over = Critic, lr = 1, opt_state = ()\<rparr>,
      n_agents = Some 1, episode_done = Some False,
      episode_rewards = ([], 0), average_speed = ([], 0), epoch_steps = ([], 0),
      cav_pos = [], hdv_pos = [], rng = 0\<rparr>"

text \<open>
  An environment of one vehicle at the origin whose base step returns an observation
  holding a NaN.
\<close>

definition ex_vehicle :: vehicle where
  "ex_vehicle = \<lparr>position = (Num 0, Num 0), speed = Num 25, crashed = False,
                  local_reward = Num 0\<rparr>"

definition ex_road_env :: "unit road_env" where
  "ex_road_env = \<lparr>controlled_vehicles = [ex_vehicle], steps = 0, duration = 20,
                   policy_frequency = 5, world = ()\<rparr>"

definition ex_env_extern :: "(unit, unit) env_extern" where
  "ex_env_extern =
     \<lparr>base_step = (\<lambda>road a. Inr ([[[NaN, Num 1]]], Num 0, False, (),
                               road\<lparr>steps := steps road + 1\<rparr>)),
      local_coordinates = (\<lambda>v. position v),
      agent_reward = (\<lambda>road a v. Inr (Num 1))\<rparr>"

section \<open>The clipped surrogate of the specification, and further inputs\<close>

text \<open>
  The actor loss as the specification words it, \<open>- mean (min (ratio * advantage)
  (clip ratio (1 - eps) (1 + eps) * advantage))\<close>, with the ratio and the advantage of the
  same sample in each term.
\<close>

definition clipped_surrogate_loss :: "real \<Rightarrow> real list \<Rightarrow> real list \<Rightarrow> real option" where
  "clipped_surrogate_loss clip ratio advantages =
     map_option uminus
       (tensor_mean (map2 (\<lambda>r a. min (r * a) (clamp r (1 - clip) (1 + clip) * a))
                       ratio advantages))"

text \<open>
  What the optimizer steps of a training call leave as it was: the two target networks,
  the fields that decide the target update, and the networks the optimizers are over.
\<close>

definition keeps_targets :: "('e, 'm, 'o) learner \<Rightarrow> ('e, 'm, 'o) learner \<Rightarrow> bool" where
  "keeps_targets s s1 =
     (nets s1 ActorTarget = nets s ActorTarget \<and> nets s1 CriticTarget = nets s CriticTarget
      \<and> n_episodes s1 = n_episodes s \<and> target_update_steps s1 = target_update_steps s
      \<and> target_tau s1 = target_tau s \<and> live_optimizers s1)"

text \<open>
  A batch of two steps collected with two agents each, and a rollout of one step that did
  not end the episode, with final state \<open>[[1]]\<close>.
\<close>

definition two_agent_batch :: batch where
  "two_agent_batch =
     \<lparr>b_states = [[[1], [2]], [[3], [4]]], b_actions = [[[1], [1]], [[1], [1]]],
      b_rewards = [[5, 6], [7, 8]]\<rparr>"

definition ex_rollout :: rollout where
  "ex_rollout = \<lparr>ro_states = [[[0]]], ro_actions = [[[0]]], ro_rewards = [[1]],
                  ro_done = False, ro_average_speed = 0, ro_final_state = Some [[1]]\<rparr>"

section \<open>Properties of discounting\<close>

lemma return_from_end: "length rs \<le> i \<Longrightarrow> return_from g rs v i = v"
  by (simp add: return_from_def)

lemma return_from_step:
  "i < length rs \<Longrightarrow> return_from g rs v i = return_from g rs v (Suc i) * g + rs ! i"
  by (simp add: return_from_def flip: Cons_nth_drop_Suc)

lemma discount_loop_length:
  "length (discount_loop g rs k ra d) = length d"
  by (induction k arbitrary: ra d) (simp_all add: Let_def)

lemma discount_loop_nth:
  assumes "k \<le> length rs" "length d = length rs" "ra = return_from g rs v k"
    and "\<forall>i. k \<le> i \<and> i < length rs \<longrightarrow> d ! i = return_from g rs v i"
    and "i < length rs"
  shows "discount_loop g rs k ra d ! i = return_from g rs v i"
  using assms
proof (induction k arbitrary: ra d)
  case 0
  then show ?case by simp
next
  case (Suc k)
  let ?ra = "ra * g + rs ! k"
  have k: "k < length rs" using Suc.prems(1) by simp
  have ra: "?ra = return_from g rs v k"
    using Suc.prems(3) return_from_step [OF k] by simp
  have "discount_loop g rs k ?ra (d[k := ?ra]) ! i = return_from g rs v i"
  proof (rule Suc.IH)
    show "k \<le> length rs" using k by simp
    show "length (d[k := ?ra]) = length rs" using Suc.prems(2) by simp
    show "?ra = return_from g rs v k" by (rule ra)
    show "\<forall>j. k \<le> j \<and> j < length rs \<longrightarrow> d[k := ?ra] ! j = return_from g rs v j"
    proof (intro allI impI)
      fix j assume j: "k \<le> j \<and> j < length rs"
      show "d[k := ?ra] ! j = return_from g rs v j"
      proof (cases "j = k")
        case True
        then show ?thesis using ra k Suc.prems(2) by simp
      next
        case False
        then have "Suc k \<le> j" using j by simp
        then show ?thesis using Suc.prems(4) j False by simp
      qed
    qed
    show "i < length rs" by (rule Suc.prems(5))
  qed
  then show ?case by (simp add: Let_def)
qed

lemma discount_reward_length: "length (discount_reward g rs v) = length rs"
  by (simp add: discount_reward_def discount_loop_length)

lemma discount_reward_nth:
  "i < length rs \<Longrightarrow> discount_reward g rs v ! i = return_from g rs v i"
  unfolding discount_reward_def
  by (rule discount_loop_nth [where v = v]) (simp_all add: return_from_end)

text \<open>
  Claim C1. For every reward sequence, discount factor and bootstrap value, the result
  \<open>R\<close> of \<^verbatim>\<open>_discount_reward\<close> has the length of the rewards and satisfies the backward
  recurrence \<open>R t = r t + \<gamma> * R (t + 1)\<close> at every index but the last, and
  \<open>R (n - 1) = r (n - 1) + \<gamma> * v\<close> at the last; rewards \<open>[1, 1, 1]\<close> with \<open>\<gamma> = 0.5\<close>
  and bootstrap \<open>0\<close> give \<open>[1.75, 1.5, 1.0]\<close>.
\<close>

theorem discount_reward_recurrence:
  "length (discount_reward g rs v) = length rs
   \<and> (\<forall>t. Suc t < length rs \<longrightarrow>
         discount_reward g rs v ! t = rs ! t + g * discount_reward g rs v ! Suc t)
   \<and> (rs \<noteq> [] \<longrightarrow>
         discount_reward g rs v ! (length rs - 1) = rs ! (length rs - 1) + g * v)
   \<and> discount_reward (1/2) [1, 1, 1] 0 = [7/4, 3/2, 1]"
proof (intro conjI allI impI)
  show "length (discount_reward g rs v) = length rs" by (rule discount_reward_length)
next
  fix t assume t: "Suc t < length rs"
  then have "t < length rs" by simp
  then show "discount_reward g rs v ! t = rs ! t + g * discount_reward g rs v ! Suc t"
    using t by (simp add: discount_reward_nth return_from_step)
next
  assume "rs \<noteq> []"
  then have l: "length rs - 1 < length rs" by simp
  have e: "return_from g rs v (Suc (length rs - 1)) = v"
    by (rule return_from_end) simp
  have "discount_reward g rs v ! (length rs - 1) = return_from g rs v (length rs - 1)"
    by (rule discount_reward_nth [OF l])
  also have "\<dots> = v * g + rs ! (length rs - 1)"
    unfolding return_from_step [OF l] e ..
  finally show "discount_reward g rs v ! (length rs - 1) = rs ! (length rs - 1) + g * v"
    by (simp add: mult.commute)
next
  show "discount_reward (1/2) [1, 1, 1] 0 = [7/4, 3/2, 1]"
    by (simp add: discount_reward_def Let_def numeral_3_eq_3)
qed

theorem discount_reward_recurrence_witness:
  "Suc 0 < length [3, 5 :: real] \<and> [3, 5 :: real] \<noteq> []
   \<and> discount_reward 2 [3, 5] 7 ! 0 = 3 + 2 * discount_reward 2 [3, 5] 7 ! Suc 0
   \<and> discount_reward 2 [3, 5] 7 ! (length [3, 5 :: real] - 1) = 5 + 2 * 7"
  using discount_reward_recurrence [of 2 "[3, 5]" 7] by simp

section \<open>Properties of the soft update\<close>

lemma lerp_tensor_length: "length (lerp_tensor tau t s) = min (length t) (length s)"
  by (simp add: lerp_tensor_def)

lemma lerp_tensor_nth:
  "j < length t \<Longrightarrow> length t = length s \<Longrightarrow>
   lerp_tensor tau t s ! j = (1 - tau) * t ! j + tau * s ! j"
  by (simp add: lerp_tensor_def lerp_def)

lemma lerp_tensor_zero: "length t = length s \<Longrightarrow> lerp_tensor 0 t s = t"
  by (induction t s rule: list_induct2) (simp_all add: lerp_tensor_def lerp_def)

lemma lerp_tensor_one: "length t = length s \<Longrightarrow> lerp_tensor 1 t s = s"
  by (induction t s rule: list_induct2) (simp_all add: lerp_tensor_def lerp_def)

lemma soft_update_target_length:
  "length (soft_update_target tau target source) = length target"
  by (induction tau target source rule: soft_update_target.induct) simp_all

lemma soft_update_target_shape:
  "same_shape target source \<Longrightarrow> same_shape (soft_update_target tau target source) source"
  unfolding same_shape_def
  by (induction target source rule: list_all2_induct) (simp_all add: lerp_tensor_length)

lemma soft_update_target_nth:
  "same_shape target source \<Longrightarrow> i < length target \<Longrightarrow>
   soft_update_target tau target source ! i = lerp_tensor tau (target ! i) (source ! i)"
  unfolding same_shape_def
proof (induction target source arbitrary: i rule: list_all2_induct)
  case Nil
  then show ?case by simp
next
  case (Cons t target s source)
  then show ?case by (cases i) simp_all
qed

lemma soft_update_target_zero:
  "same_shape target source \<Longrightarrow> soft_update_target 0 target source = target"
  unfolding same_shape_def
  by (induction target source rule: list_all2_induct) (simp_all add: lerp_tensor_zero)

lemma soft_update_target_one:
  "same_shape target source \<Longrightarrow> soft_update_target 1 target source = source"
  unfolding same_shape_def
  by (induction target source rule: list_all2_induct) (simp_all add: lerp_tensor_one)

text \<open>
  Claim C3. One call of \<^verbatim>\<open>_soft_update_target\<close> on a target and a live network of the
  same architecture sets every entry of every target parameter to
  \<open>(1 - \<tau>) * t + \<tau> * s\<close>. With \<open>\<tau> = 0\<close> the target is unchanged, with \<open>\<tau> = 1\<close> it
  becomes the live network, and with live \<open>1.0\<close>, target \<open>0.0\<close> and \<open>\<tau> = 0.25\<close> the
  target is \<open>0.25\<close> after one update and \<open>0.4375\<close> after a second one.
\<close>

theorem soft_update_target_convex:
  assumes "same_shape target source"
  shows "length (soft_update_target tau target source) = length target
    \<and> (\<forall>i < length target. \<forall>j < length (target ! i).
           soft_update_target tau target source ! i ! j
             = (1 - tau) * target ! i ! j + tau * source ! i ! j)
    \<and> soft_update_target 0 target source = target
    \<and> soft_update_target 1 target source = source
    \<and> soft_update_target (1/4) [[0]] [[1]] = [[1/4]]
    \<and> soft_update_target (1/4) (soft_update_target (1/4) [[0]] [[1]]) [[1]] = [[7/16]]"
proof (intro conjI allI impI)
  show "length (soft_update_target tau target source) = length target"
    by (rule soft_update_target_length)
next
  fix i j assume i: "i < length target" and j: "j < length (target ! i)"
  have "length (target ! i) = length (source ! i)"
    using assms i by (simp add: same_shape_def list_all2_conv_all_nth)
  then show "soft_update_target tau target source ! i ! j
           = (1 - tau) * target ! i ! j + tau * source ! i ! j"
    using soft_update_target_nth [OF assms i] j by (simp add: lerp_tensor_nth)
next
  show "soft_update_target 0 target source = target"
    by (rule soft_update_target_zero [OF assms])
next
  show "soft_update_target 1 target source = source"
    by (rule soft_update_target_one [OF assms])
next
  show "soft_update_target (1/4) [[0]] [[1]] = [[1/4]]"
    by (simp add: lerp_tensor_def lerp_def)
next
  show "soft_update_target (1/4) (soft_update_target (1/4) [[0]] [[1]]) [[1]] = [[7/16]]"
    by (simp add: lerp_tensor_def lerp_def)
qed

theorem soft_update_target_convex_witness:
  "same_shape [[0, 2], [4]] [[1, 1], [8]]
   \<and> soft_update_target (1/4) [[0, 2], [4]] [[1, 1], [8]] ! 0 ! 1 = (1 - 1/4) * 2 + 1/4 * 1
   \<and> soft_update_target 0 [[0, 2], [4]] [[1, 1], [8]] = [[0, 2], [4]]
   \<and> soft_update_target 1 [[0, 2], [4]] [[1, 1], [8]] = [[1, 1], [8]]"
proof -
  have s: "same_shape [[0, 2], [4]] [[1, 1], [8 :: real]]"
    by (simp add: same_shape_def)
  note c = soft_update_target_convex [OF s, of "1/4"]
  have "soft_update_target (1/4) [[0, 2], [4]] [[1, 1], [8]] ! 0 ! 1 = (1 - 1/4) * 2 + 1/4 * 1"
    using c [THEN conjunct2, THEN conjunct1, rule_format, of 0 1] by simp
  then show ?thesis
    using s c by simp
qed

section \<open>Properties of reward scaling\<close>

lemma scale_rewards_positive:
  "0 < scale \<Longrightarrow> rectangular raw \<Longrightarrow>
   scale_rewards scale raw = Inr (NdArray (map (map (\<lambda>r. r / scale)) raw))"
  by (simp add: scale_rewards_def)

lemma scale_rewards_unscaled: "scale \<le> 0 \<Longrightarrow> scale_rewards scale raw = Inr (PyList raw)"
  by (simp add: scale_rewards_def)

text \<open>
  What follows the guard when it is false: the rewards are still a Python list, and
  neither the column index of the discounting loop nor \<^verbatim>\<open>tolist\<close> accepts one.
\<close>

lemma process_rewards_unscaled:
  assumes "scale \<le> 0"
  shows "process_rewards scale g n final_value raw
     = (if n = 0 then Inl AttributeError else Inl TypeError)"
proof (cases n)
  case 0
  then show ?thesis
    using assms by (simp add: process_rewards_def scale_rewards_def tolist_def)
next
  case (Suc m)
  then have "[0..<n] = 0 # [1..<n]" by (simp add: upt_rec)
  then show ?thesis
    using Suc assms by (simp add: process_rewards_def scale_rewards_def discount_agent_def)
qed

text \<open>
  Under the guard every collected reward is divided by the scale and the discounting
  loop runs on the quotients; at scale 20 the raw rewards \<open>[20, 20]\<close> of one agent become
  \<open>[1, 1]\<close> before they are discounted.
\<close>

lemma process_rewards_scaled:
  "0 < scale \<Longrightarrow> rectangular raw \<Longrightarrow>
   process_rewards scale g n final_value raw
     = (case discount_agents g final_value [0..<n]
               (NdArray (map (map (\<lambda>r. r / scale)) raw)) of
          Inl e \<Rightarrow> Inl e
        | Inr rv \<Rightarrow> tolist rv)"
  by (simp add: process_rewards_def scale_rewards_positive)

lemma scale_rewards_twenty: "scale_rewards 20 [[20], [20]] = Inr (NdArray [[1], [1]])"
  by (simp add: scale_rewards_def rectangular_def)

lemma process_rewards_twenty:
  "process_rewards 20 g 1 [v] [[20], [20]] = Inr [[1 + g * (1 + g * v)], [1 + g * v]]"
proof -
  have d: "discount_reward g [1, 1] v = [1 + g * (1 + g * v), 1 + g * v]"
    by (simp add: discount_reward_def Let_def numeral_2_eq_2 algebra_simps)
  show ?thesis
    by (simp add: process_rewards_def scale_rewards_def rectangular_def discount_agent_def
        get_column_def set_column_def tolist_def d)
qed

section \<open>Properties of the environment step\<close>

lemma vehicles_info_nan:
  "list_ex position_isnan vs \<Longrightarrow> vehicles_info lc vs acc = Inl ValueError"
  by (induction vs arbitrary: acc) (auto simp: Let_def)

lemma vehicles_info_clean:
  "\<not> list_ex position_isnan vs \<Longrightarrow> \<exists>r. vehicles_info lc vs acc = Inr r"
  by (induction vs arbitrary: acc) (auto simp: Let_def)

text \<open>
  Claim C9, as the code has it. When the base step has returned and a controlled vehicle's
  position holds a NaN, \<^verbatim>\<open>step\<close> raises \<^verbatim>\<open>ValueError\<close> and returns nothing; an exception of
  the base step is passed on. The observation is not among what \<^verbatim>\<open>step\<close> tests.
\<close>

theorem step_nan_position_raises:
  "(base_step E road act = Inr (obs, reward, done, binfo, road1)
      \<and> list_ex position_isnan (controlled_vehicles road1)
      \<longrightarrow> step E act road = Inl ValueError)
   \<and> (base_step E road act = Inl e \<longrightarrow> step E act road = Inl e)"
  by (simp add: step_def vehicles_info_nan)

theorem step_nan_position_raises_witness:
  "base_step (ex_env_extern\<lparr>base_step := (\<lambda>road a. Inr ([[[Num 0]]], Num 0, False, (),
       road\<lparr>controlled_vehicles := [ex_vehicle\<lparr>position := (Num 3, NaN)\<rparr>]\<rparr>))\<rparr>)
     ex_road_env []
     = Inr ([[[Num 0]]], Num 0, False, (),
         ex_road_env\<lparr>controlled_vehicles := [ex_vehicle\<lparr>position := (Num 3, NaN)\<rparr>]\<rparr>)
   \<and> list_ex position_isnan (controlled_vehicles
         (ex_road_env\<lparr>controlled_vehicles := [ex_vehicle\<lparr>position := (Num 3, NaN)\<rparr>]\<rparr>))
   \<and> step (ex_env_extern\<lparr>base_step := (\<lambda>road a. Inr ([[[Num 0]]], Num 0, False, (),
       road\<lparr>controlled_vehicles := [ex_vehicle\<lparr>position := (Num 3, NaN)\<rparr>]\<rparr>))\<rparr>)
     [] ex_road_env = Inl ValueError"
  using step_nan_position_raises
    [of "ex_env_extern\<lparr>base_step := (\<lambda>road a. Inr ([[[Num 0]]], Num 0, False, (),
       road\<lparr>controlled_vehicles := [ex_vehicle\<lparr>position := (Num 3, NaN)\<rparr>]\<rparr>))\<rparr>"
      ex_road_env "[]" "[[[Num 0]]]" "Num 0" False "()"
      "ex_road_env\<lparr>controlled_vehicles := [ex_vehicle\<lparr>position := (Num 3, NaN)\<rparr>]\<rparr>"]
  by (simp add: position_isnan_def isnan_def)

text \<open>
  The claim as stated fails: the base step returns an observation with a NaN, the one
  vehicle has a finite position, and \<^verbatim>\<open>step\<close> returns the observation with its NaN.
\<close>

theorem step_nan_observation_returned:
  "step ex_env_extern [] ex_road_env
     = Inr ([[NaN, Num 1]], Num 0, False,
            \<lparr>base_info = (), agents_dones = [False],
             step_agents_info = [[Num 0, Num 0, Num 25]],
             step_hdv_info = [[Num 0, Num 0, Num 25]],
             agents_rewards = [Num 1]\<rparr>,
            \<lparr>controlled_vehicles = [ex_vehicle\<lparr>local_reward := Num 1\<rparr>], steps = 1,
             duration = 20, policy_frequency = 5, world = ()\<rparr>)
   \<and> has_nan [[NaN, Num 1]]"
  by (simp add: step_def ex_env_extern_def ex_road_env_def ex_vehicle_def
      agent_is_terminal_def position_isnan_def isnan_def reshape_obs_def has_nan_def)


section \<open>Properties of the batch views\<close>

lemma chunks_Nil [simp]: "chunks k [] = []"
  by (simp add: chunks.simps)

lemma chunks_Cons:
  "0 < k \<Longrightarrow> chunks k (x # xs) = take k (x # xs) # chunks k (drop k (x # xs))"
  by (subst chunks.simps) simp

lemma chunks_append:
  "0 < k \<Longrightarrow> length x = k \<Longrightarrow> chunks k (x @ ys) = x # chunks k ys"
  by (subst chunks.simps) auto

lemma chunks_concat:
  "0 < k \<Longrightarrow> \<forall>x \<in> set xss. length x = k \<Longrightarrow> chunks k (concat xss) = xss"
  by (induction xss) (simp_all add: chunks_append)

lemma chunks_one: "chunks (Suc 0) xs = map (\<lambda>x. [x]) xs"
  by (induction xs) (simp_all add: chunks_Cons)

lemma length_concat_uniform:
  "\<forall>x \<in> set xss. length x = k \<Longrightarrow> length (concat xss) = length xss * k"
  by (induction xss) simp_all

lemma view3_uniform:
  assumes "0 < n" "0 < d"
    and steps: "\<forall>step \<in> set t. length step = n \<and> (\<forall>row \<in> set step. length row = d)"
  shows "view3 n d (flat3 t) = Inr t"
proof -
  have rows: "\<forall>row \<in> set (concat t). length row = d" using steps by auto
  have len: "length (concat (concat t)) = length t * n * d"
    using length_concat_uniform [OF rows] length_concat_uniform [of t n] steps by simp
  have "chunks d (concat (concat t)) = concat t"
    by (rule chunks_concat [OF assms(2) rows])
  moreover have "chunks n (concat t) = t"
    by (rule chunks_concat [OF assms(1)]) (use steps in simp)
  ultimately show ?thesis
    using assms(1,2) len by (simp add: view3_def flat3_def mult.assoc)
qed

lemma view3_rewards_uniform:
  assumes "0 < n" and steps: "\<forall>step \<in> set rs. length step = n"
  shows "view3 n 1 (concat rs) = Inr (map (map (\<lambda>r. [r])) rs)"
proof -
  have "chunks n (map (\<lambda>x. [x]) (concat rs)) = chunks n (concat (map (map (\<lambda>x. [x])) rs))"
    by (simp add: map_concat)
  also have "\<dots> = map (map (\<lambda>x. [x])) rs"
    by (rule chunks_concat [OF assms(1)]) (use steps in simp)
  finally show ?thesis
    using assms(1) length_concat_uniform [OF steps] by (simp add: view3_def chunks_one)
qed

lemma train_unfold:
  assumes "memory_sample X (memory s) (batch_size s) = (Inr b, m)" "n_agents s = Some n"
  shows "train X s =
     (case train_tensors n (state_dim s) (action_dim s) b of
        Inl e \<Rightarrow> (s\<lparr>memory := m\<rparr>, Some e)
      | Inr tv \<Rightarrow>
          (case agents_loop X tv [0..<n] (s\<lparr>memory := m\<rparr>) of
             (s2, Some e) \<Rightarrow> (s2, Some e)
           | (s2, None) \<Rightarrow> update_targets s2))"
  using assms by (simp add: train_def train_body_def Let_def split: sum.splits)

text \<open>
  Claim C8, as the code has it. \<^verbatim>\<open>train\<close> cuts the sampled batch into
  \<open>(batch, agent, feature)\<close> tensors with the learner's one current agent count
  \<^verbatim>\<open>self.n_agents\<close>, which the latest \<^verbatim>\<open>interact\<close> has set. The tensors are the sampled
  steps with their own rows per agent when every sampled step was collected with that
  same number of agents.
\<close>

theorem train_views_current_agent_count:
  assumes "memory_sample X (memory s) (batch_size s) = (Inr b, m)" "n_agents s = Some n"
  shows "train X s =
      (case train_tensors n (state_dim s) (action_dim s) b of
         Inl e \<Rightarrow> (s\<lparr>memory := m\<rparr>, Some e)
       | Inr tv \<Rightarrow>
           (case agents_loop X tv [0..<n] (s\<lparr>memory := m\<rparr>) of
              (s2, Some e) \<Rightarrow> (s2, Some e)
            | (s2, None) \<Rightarrow> update_targets s2))
    \<and> (0 < n \<and> 0 < state_dim s \<and> 0 < action_dim s
        \<and> (\<forall>step \<in> set (b_states b).
              length step = n \<and> (\<forall>row \<in> set step. length row = state_dim s))
        \<and> (\<forall>step \<in> set (b_actions b).
              length step = n \<and> (\<forall>row \<in> set step. length row = action_dim s))
        \<and> (\<forall>step \<in> set (b_rewards b). length step = n)
        \<and> length (b_states b) = length (b_actions b)
        \<and> length (b_actions b) = length (b_rewards b)
        \<longrightarrow> train_tensors n (state_dim s) (action_dim s) b
              = Inr (b_states b, b_actions b, map (map (\<lambda>r. [r])) (b_rewards b)))"
proof (intro conjI impI)
  show "train X s =
      (case train_tensors n (state_dim s) (action_dim s) b of
         Inl e \<Rightarrow> (s\<lparr>memory := m\<rparr>, Some e)
       | Inr tv \<Rightarrow>
           (case agents_loop X tv [0..<n] (s\<lparr>memory := m\<rparr>) of
              (s2, Some e) \<Rightarrow> (s2, Some e)
            | (s2, None) \<Rightarrow> update_targets s2))"
    by (rule train_unfold [OF assms])
next
  assume a: "0 < n \<and> 0 < state_dim s \<and> 0 < action_dim s
        \<and> (\<forall>step \<in> set (b_states b).
              length step = n \<and> (\<forall>row \<in> set step. length row = state_dim s))
        \<and> (\<forall>step \<in> set (b_actions b).
              length step = n \<and> (\<forall>row \<in> set step. length row = action_dim s))
        \<and> (\<forall>step \<in> set (b_rewards b). length step = n)
        \<and> length (b_states b) = length (b_actions b)
        \<and> length (b_actions b) = length (b_rewards b)"
  have sv: "view3 n (state_dim s) (flat3 (b_states b)) = Inr (b_states b)"
    using a by (intro view3_uniform) simp_all
  have av: "view3 n (action_dim s) (flat3 (b_actions b)) = Inr (b_actions b)"
    using a by (intro view3_uniform) simp_all
  have rv: "view3 n 1 (concat (b_rewards b)) = Inr (map (map (\<lambda>r. [r])) (b_rewards b))"
    using a by (intro view3_rewards_uniform) simp_all
  show "train_tensors n (state_dim s) (action_dim s) b
              = Inr (b_states b, b_actions b, map (map (\<lambda>r. [r])) (b_rewards b))"
    using a by (simp add: train_tensors_def sv av rv [unfolded One_nat_def])
qed

lemma ex_tensors:
  "train_tensors (Suc 0) (Suc 0) (Suc 0) ex_batch
     = Inr ([[[0]], [[1]]], [[[1]], [[1]]], [[[0]], [[1]]])"
  by (simp add: train_tensors_def view3_def flat3_def ex_batch_def chunks_Cons)

theorem train_views_current_agent_count_witness:
  "memory_sample ex_extern (memory ex_learner) (batch_size ex_learner) = (Inr ex_batch, ex_batch)
   \<and> n_agents ex_learner = Some 1
   \<and> train_tensors 1 (state_dim ex_learner) (action_dim ex_learner) ex_batch
       = Inr (b_states ex_batch, b_actions ex_batch, [[[0]], [[1]]])"
proof -
  have m: "memory_sample ex_extern (memory ex_learner) (batch_size ex_learner)
             = (Inr ex_batch, ex_batch)"
    by (simp add: ex_extern_def ex_learner_def)
  have n: "n_agents ex_learner = Some 1" by (simp add: ex_learner_def)
  have "train_tensors 1 (state_dim ex_learner) (action_dim ex_learner) ex_batch
          = Inr (b_states ex_batch, b_actions ex_batch,
                 map (map (\<lambda>r. [r])) (b_rewards ex_batch))"
    using train_views_current_agent_count [OF m n, THEN conjunct2]
    by (simp add: ex_learner_def ex_batch_def)
  then show ?thesis using m n by (simp add: ex_batch_def)
qed

text \<open>
  The claim as stated fails: the two sampled steps were collected with two agents each,
  the learner's current count is one, and the states are cut into four steps of one
  agent, so that the slice of agent 0 holds the rows of both agents.
\<close>

theorem train_views_other_agent_count:
  "n_agents ex_learner = Some 1
   \<and> map length (b_states two_agent_batch) = [2, 2]
   \<and> train_tensors 1 (state_dim ex_learner) (action_dim ex_learner) two_agent_batch
       = Inr ([[[1]], [[2]], [[3]], [[4]]], [[[1]], [[1]], [[1]], [[1]]],
              [[[5]], [[6]], [[7]], [[8]]])
   \<and> agent_slice 0 [[[1]], [[2]], [[3]], [[4]]] = [[1], [2], [3], [4]]
   \<and> agent_slice 0 (b_states two_agent_batch) = [[1], [3]]"
  by (simp add: ex_learner_def two_agent_batch_def train_tensors_def view3_def flat3_def
      chunks_Cons agent_slice_def)


section \<open>The live/target discipline\<close>

lemma init_live: "live_optimizers (init X cfg optimizer_type actor_lr critic_lr o0 actor0 critic0)"
  by (simp add: init_def init_optimizers_def live_optimizers_def Let_def split: prod.splits)

lemma init_over:
  "(case actor_optimizer (init X cfg optimizer_type actor_lr critic_lr o0 actor0 critic0) of
      None \<Rightarrow> True | Some opt \<Rightarrow> over opt = Actor)
   \<and> (case critic_optimizer (init X cfg optimizer_type actor_lr critic_lr o0 actor0 critic0) of
      None \<Rightarrow> True | Some opt \<Rightarrow> over opt = Critic)"
  by (simp add: init_def init_optimizers_def Let_def split: prod.splits)

lemma init_targets:
  "nets (init X cfg optimizer_type actor_lr critic_lr o0 actor0 critic0) ActorTarget = actor0
   \<and> nets (init X cfg optimizer_type actor_lr critic_lr o0 actor0 critic0) CriticTarget = critic0"
  by (simp add: init_def init_nets_def Let_def split: prod.splits)

lemma keeps_targets_refl: "live_optimizers s \<Longrightarrow> keeps_targets s s"
  by (simp add: keeps_targets_def)

lemma keeps_targets_trans: "keeps_targets s s1 \<Longrightarrow> keeps_targets s1 s2 \<Longrightarrow> keeps_targets s s2"
  by (simp add: keeps_targets_def)

lemma keeps_targets_live: "keeps_targets s s1 \<Longrightarrow> live_optimizers s1"
  by (simp add: keeps_targets_def)

lemma actor_update_keeps:
  "live_optimizers s \<Longrightarrow> actor_update X tv i s = (s1, r) \<Longrightarrow> keeps_targets s s1"
  by (auto simp: actor_update_def keeps_targets_def live_optimizers_def Let_def
      split: option.splits prod.splits)

lemma critic_update_keeps:
  "live_optimizers s \<Longrightarrow> critic_update X tv i s = (s1, r) \<Longrightarrow> keeps_targets s s1"
  by (auto simp: critic_update_def keeps_targets_def live_optimizers_def Let_def
      split: option.splits prod.splits)

lemma agent_update_keeps:
  assumes "live_optimizers s" "agent_update X tv i s = (s2, r)"
  shows "keeps_targets s s2"
proof (cases "actor_update X tv i s")
  case (Pair s1 r1)
  have k1: "keeps_targets s s1" by (rule actor_update_keeps [OF assms(1) Pair])
  show ?thesis
  proof (cases r1)
    case None
    then have "critic_update X tv i s1 = (s2, r)"
      using assms(2) Pair by (simp add: agent_update_def)
    then have "keeps_targets s1 s2"
      by (rule critic_update_keeps [OF keeps_targets_live [OF k1]])
    then show ?thesis by (rule keeps_targets_trans [OF k1])
  next
    case (Some e)
    then have "s2 = s1" using assms(2) Pair by (simp add: agent_update_def)
    then show ?thesis using k1 by simp
  qed
qed

lemma agents_loop_keeps:
  "live_optimizers s \<Longrightarrow> agents_loop X tv ids s = (s2, r) \<Longrightarrow> keeps_targets s s2"
proof (induction ids arbitrary: s)
  case Nil
  then show ?case by (simp add: keeps_targets_refl)
next
  case (Cons i ids)
  show ?case
  proof (cases "agent_update X tv i s")
    case (Pair s1 r1)
    have k1: "keeps_targets s s1" by (rule agent_update_keeps [OF Cons.prems(1) Pair])
    show ?thesis
    proof (cases r1)
      case None
      then have "agents_loop X tv ids s1 = (s2, r)" using Cons.prems(2) Pair by simp
      then have "keeps_targets s1 s2"
        by (rule Cons.IH [OF keeps_targets_live [OF k1]])
      then show ?thesis by (rule keeps_targets_trans [OF k1])
    next
      case (Some e)
      then have "s2 = s1" using Cons.prems(2) Pair by simp
      then show ?thesis using k1 by simp
    qed
  qed
qed

lemma update_targets_nets:
  assumes "update_targets s = (s1, r)"
  shows "(r = None \<and> n_episodes s mod target_update_steps s = 0 \<and> n_episodes s > 0 \<longrightarrow>
            nets s1 ActorTarget
              = soft_update_target (target_tau s) (nets s ActorTarget) (nets s Actor)
          \<and> nets s1 CriticTarget
              = soft_update_target (target_tau s) (nets s CriticTarget) (nets s Critic)
          \<and> nets s1 Actor = nets s Actor \<and> nets s1 Critic = nets s Critic)
       \<and> (\<not> (r = None \<and> n_episodes s mod target_update_steps s = 0 \<and> n_episodes s > 0) \<longrightarrow>
            nets s1 = nets s)
       \<and> live_optimizers s1 = live_optimizers s"
  using assms by (auto simp: update_targets_def live_optimizers_def Let_def split: if_splits)

text \<open>
  The effect of one call of \<^verbatim>\<open>train\<close> on the target networks, for a learner whose
  optimizers are over live networks.
\<close>

lemma train_targets:
  assumes live: "live_optimizers s" and t: "train X s = (s1, r)"
  shows "(r = None \<and> n_episodes s mod target_update_steps s = 0 \<and> n_episodes s > 0 \<longrightarrow>
            nets s1 ActorTarget
              = soft_update_target (target_tau s) (nets s ActorTarget) (nets s1 Actor)
          \<and> nets s1 CriticTarget
              = soft_update_target (target_tau s) (nets s CriticTarget) (nets s1 Critic))
       \<and> (\<not> (r = None \<and> n_episodes s mod target_update_steps s = 0 \<and> n_episodes s > 0) \<longrightarrow>
            nets s1 ActorTarget = nets s ActorTarget
          \<and> nets s1 CriticTarget = nets s CriticTarget)
       \<and> live_optimizers s1"
proof (cases "memory_sample X (memory s) (batch_size s)")
  case (Pair sampled m)
  let ?s0 = "s\<lparr>memory := m\<rparr>"
  have live0: "live_optimizers ?s0" using live by (simp add: live_optimizers_def)
  have early: "s1 = ?s0 \<Longrightarrow> r \<noteq> None \<Longrightarrow> ?thesis"
    using live0 by auto
  show ?thesis
  proof (cases sampled)
    case (Inl e)
    then have "s1 = ?s0 \<and> r = Some e"
      using t Pair by (simp add: train_def train_body_def)
    then show ?thesis using early by simp
  next
    case (Inr b)
    show ?thesis
    proof (cases "n_agents s")
      case None
      then have "s1 = ?s0 \<and> r = Some AttributeError"
        using t Pair Inr by (simp add: train_def train_body_def Let_def)
      then show ?thesis using early by simp
    next
      case (Some n)
      show ?thesis
      proof (cases "train_tensors n (state_dim s) (action_dim s) b")
        case (Inl e)
        then have "s1 = ?s0 \<and> r = Some e"
          using t Pair Inr Some \<open>sampled = Inr b\<close>
          by (simp add: train_def train_body_def Let_def)
        then show ?thesis using early by simp
      next
        case tv: (Inr tv)
        obtain s2 r2 where loop: "agents_loop X tv [0..<n] ?s0 = (s2, r2)"
          by (cases "agents_loop X tv [0..<n] ?s0")
        have k: "keeps_targets ?s0 s2" by (rule agents_loop_keeps [OF live0 loop])
        show ?thesis
        proof (cases r2)
          case None
          then have u: "update_targets s2 = (s1, r)"
            using t Pair Inr Some tv loop by (simp add: train_def train_body_def Let_def)
          show ?thesis
            using update_targets_nets [OF u] k by (auto simp: keeps_targets_def)
        next
          case (Some e)
          then have "s1 = s2 \<and> r = Some e"
            using t Pair Inr \<open>n_agents s = Some n\<close> tv loop
            by (simp add: train_def train_body_def Let_def)
          then show ?thesis using k by (auto simp: keeps_targets_def)
        qed
      qed
    qed
  qed
qed

text \<open>\<^verbatim>\<open>interact\<close> reads the networks and writes none of them, and no optimizer.\<close>

lemma rollout_step_nets:
  "rollout_step X n (s, ro) = ((s1, ro1), r) \<Longrightarrow>
   nets s1 = nets s \<and> actor_optimizer s1 = actor_optimizer s
   \<and> critic_optimizer s1 = critic_optimizer s"
  by (auto simp: rollout_step_def Let_def split: sum.splits prod.splits if_splits)

lemma rollout_loop_nets:
  "rollout_loop X n k (s, ro) = ((s1, ro1), r) \<Longrightarrow>
   nets s1 = nets s \<and> actor_optimizer s1 = actor_optimizer s
   \<and> critic_optimizer s1 = critic_optimizer s"
proof (induction k arbitrary: s ro)
  case 0
  then show ?case by simp
next
  case (Suc k)
  obtain s2 ro2 r2 where st: "rollout_step X n (s, ro) = ((s2, ro2), r2)"
    by (cases "rollout_step X n (s, ro)") auto
  note n2 = rollout_step_nets [OF st]
  show ?case
  proof (cases "r2 = None \<and> \<not> ro_done ro2")
    case True
    then have "rollout_loop X n k (s2, ro2) = ((s1, ro1), r)"
      using Suc.prems st by simp
    then show ?thesis using Suc.IH n2 by simp
  next
    case False
    then have "s1 = s2" using Suc.prems st by (cases r2) (auto split: if_splits)
    then show ?thesis using n2 by simp
  qed
qed

lemma final_value_of_nets:
  "final_value_of X n ro s = (s1, v) \<Longrightarrow>
   nets s1 = nets s \<and> actor_optimizer s1 = actor_optimizer s
   \<and> critic_optimizer s1 = critic_optimizer s"
  by (auto simp: final_value_of_def Let_def split: if_splits option.splits sum.splits prod.splits)

lemma reset_if_over_nets:
  "nets (reset_if_over X s) = nets s \<and> actor_optimizer (reset_if_over X s) = actor_optimizer s
   \<and> critic_optimizer (reset_if_over X s) = critic_optimizer s"
  by (simp add: reset_if_over_def Let_def split: option.splits prod.splits)

lemma interact_nets:
  assumes "interact X s = (s1, r)"
  shows "nets s1 = nets s \<and> actor_optimizer s1 = actor_optimizer s
   \<and> critic_optimizer s1 = critic_optimizer s"
proof -
  let ?s0 = "reset_if_over X s"
  let ?n = "env_controlled_vehicles X (env ?s0)"
  let ?s1 = "?s0\<lparr>n_agents := Some ?n\<rparr>"
  obtain s2 ro r2 where loop:
    "rollout_loop X ?n (nat (roll_out_n_steps ?s1)) (?s1, empty_rollout) = ((s2, ro), r2)"
    by (cases "rollout_loop X ?n (nat (roll_out_n_steps ?s1)) (?s1, empty_rollout)") auto
  have n2: "nets s2 = nets s \<and> actor_optimizer s2 = actor_optimizer s
              \<and> critic_optimizer s2 = critic_optimizer s"
    using rollout_loop_nets [OF loop] reset_if_over_nets [of X s] by simp
  obtain s3 v where fv: "final_value_of X ?n ro s2 = (s3, v)"
    by (cases "final_value_of X ?n ro s2")
  have n3: "nets s3 = nets s \<and> actor_optimizer s3 = actor_optimizer s
              \<and> critic_optimizer s3 = critic_optimizer s"
    using final_value_of_nets [OF fv] n2 by simp
  show ?thesis
    using assms loop fv n2 n3
    by (auto simp: interact_def Let_def split: option.splits sum.splits)
qed

lemma interact_live:
  "live_optimizers s \<Longrightarrow> interact X s = (s1, r) \<Longrightarrow> live_optimizers s1"
  using interact_nets [of X s s1 r] by (simp add: live_optimizers_def)


lemma ex_live: "live_optimizers (ex_learner\<lparr>n_episodes := k\<rparr>)"
  by (simp add: live_optimizers_def ex_learner_def)

lemma ex_train:
  assumes "train ex_extern (ex_learner\<lparr>n_episodes := k\<rparr>) = (s1, r)"
  shows "r = None \<and> nets s1 Actor = [[2]] \<and> nets s1 Critic = [[2]]
     \<and> nets s1 ActorTarget = (if k mod 5 = 0 \<and> k > 0 then [[2]] else [[1]])
     \<and> nets s1 CriticTarget = (if k mod 5 = 0 \<and> k > 0 then [[2]] else [[1]])"
  using assms
  by (auto simp add: train_def train_body_def ex_tensors ex_extern_def ex_learner_def
      actor_update_def critic_update_def agent_update_def update_targets_def init_nets_def
      lerp_tensor_def lerp_def Let_def split: if_splits)

text \<open>
  Claim C6, as the code has it. A call of \<^verbatim>\<open>train\<close> that returns soft-updates both
  target networks toward their live counterparts, with factor \<open>\<tau>\<close>, exactly when
  \<^verbatim>\<open>n_episodes % target_update_steps == 0\<close> and \<^verbatim>\<open>n_episodes > 0\<close>; in every other call,
  and in a call that raises, \<^verbatim>\<open>train\<close> leaves the target parameters as they were. The
  learner's optimizers are over live networks, as the constructor builds them.
\<close>

theorem train_soft_update_condition:
  assumes "live_optimizers s" and "train X s = (s1, r)"
  shows "(r = None \<and> n_episodes s mod target_update_steps s = 0 \<and> n_episodes s > 0 \<longrightarrow>
            nets s1 ActorTarget
              = soft_update_target (target_tau s) (nets s ActorTarget) (nets s1 Actor)
          \<and> nets s1 CriticTarget
              = soft_update_target (target_tau s) (nets s CriticTarget) (nets s1 Critic))
       \<and> (\<not> (r = None \<and> n_episodes s mod target_update_steps s = 0 \<and> n_episodes s > 0) \<longrightarrow>
            nets s1 ActorTarget = nets s ActorTarget
          \<and> nets s1 CriticTarget = nets s CriticTarget)"
  using train_targets [OF assms] by blast

theorem train_soft_update_condition_witness:
  "live_optimizers (ex_learner\<lparr>n_episodes := 5\<rparr>)
   \<and> snd (train ex_extern (ex_learner\<lparr>n_episodes := 5\<rparr>)) = None
   \<and> nets (fst (train ex_extern (ex_learner\<lparr>n_episodes := 5\<rparr>))) ActorTarget
       = soft_update_target 1 [[1]] (nets (fst (train ex_extern (ex_learner\<lparr>n_episodes := 5\<rparr>))) Actor)
   \<and> live_optimizers (ex_learner\<lparr>n_episodes := 6\<rparr>)
   \<and> nets (fst (train ex_extern (ex_learner\<lparr>n_episodes := 6\<rparr>))) ActorTarget = [[1]]"
proof -
  have p5: "train ex_extern (ex_learner\<lparr>n_episodes := 5\<rparr>)
          = (fst (train ex_extern (ex_learner\<lparr>n_episodes := 5\<rparr>)),
             snd (train ex_extern (ex_learner\<lparr>n_episodes := 5\<rparr>)))" by simp
  have p6: "train ex_extern (ex_learner\<lparr>n_episodes := 6\<rparr>)
          = (fst (train ex_extern (ex_learner\<lparr>n_episodes := 6\<rparr>)),
             snd (train ex_extern (ex_learner\<lparr>n_episodes := 6\<rparr>)))" by simp
  have r5: "snd (train ex_extern (ex_learner\<lparr>n_episodes := 5\<rparr>)) = None"
    using ex_train [OF p5] by simp
  show ?thesis
    using train_soft_update_condition [OF ex_live p5] train_soft_update_condition [OF ex_live p6]
      r5 ex_live [of 5] ex_live [of 6]
    by (simp add: ex_learner_def init_nets_def)
qed

text \<open>
  The claim as stated fails at the first episode count: \<open>0 mod 5 = 0\<close>, the call returns,
  and the actor target stays \<open>[[1]]\<close> where the soft update toward the live actor would
  have made it \<open>[[2]]\<close>.
\<close>

theorem train_no_update_at_zero_episodes:
  "n_episodes ex_learner mod target_update_steps ex_learner = 0
   \<and> snd (train ex_extern ex_learner) = None
   \<and> nets (fst (train ex_extern ex_learner)) ActorTarget = [[1]]
   \<and> soft_update_target (target_tau ex_learner) (nets ex_learner ActorTarget)
        (nets (fst (train ex_extern ex_learner)) Actor) = [[2]]"
proof -
  have e: "ex_learner = ex_learner\<lparr>n_episodes := 0\<rparr>" by (simp add: ex_learner_def)
  have p: "train ex_extern (ex_learner\<lparr>n_episodes := 0\<rparr>)
          = (fst (train ex_extern ex_learner), snd (train ex_extern ex_learner))"
    using e by simp
  show ?thesis
    using ex_train [OF p]
    by (simp add: ex_learner_def init_nets_def lerp_tensor_def lerp_def)
qed

text \<open>
  Claim C5. The constructor builds the two optimizers over the live actor and the live
  critic only. From there on, \<^verbatim>\<open>interact\<close> changes no network; in \<^verbatim>\<open>train\<close> the optimizer
  steps of the loop over the agents leave both targets as they were, and at the end of
  the call each target is either what it was or the result of \<^verbatim>\<open>_soft_update_target\<close> on
  it and its live network; both methods keep the optimizers over live networks.
\<close>

theorem targets_changed_by_soft_update_only:
  "live_optimizers (init X cfg optimizer_type actor_lr critic_lr o0 actor0 critic0)
   \<and> (case actor_optimizer (init X cfg optimizer_type actor_lr critic_lr o0 actor0 critic0) of
        None \<Rightarrow> True | Some opt \<Rightarrow> over opt = Actor)
   \<and> (case critic_optimizer (init X cfg optimizer_type actor_lr critic_lr o0 actor0 critic0) of
        None \<Rightarrow> True | Some opt \<Rightarrow> over opt = Critic)
   \<and> (live_optimizers s \<longrightarrow>
        live_optimizers (fst (interact X s))
        \<and> nets (fst (interact X s)) ActorTarget = nets s ActorTarget
        \<and> nets (fst (interact X s)) CriticTarget = nets s CriticTarget
        \<and> keeps_targets s (fst (agents_loop X tv ids s))
        \<and> live_optimizers (fst (train X s))
        \<and> (nets (fst (train X s)) ActorTarget = nets s ActorTarget
           \<or> nets (fst (train X s)) ActorTarget
               = soft_update_target (target_tau s) (nets s ActorTarget)
                   (nets (fst (train X s)) Actor))
        \<and> (nets (fst (train X s)) CriticTarget = nets s CriticTarget
           \<or> nets (fst (train X s)) CriticTarget
               = soft_update_target (target_tau s) (nets s CriticTarget)
                   (nets (fst (train X s)) Critic)))"
proof (intro conjI impI)
  show "live_optimizers (init X cfg optimizer_type actor_lr critic_lr o0 actor0 critic0)"
    by (rule init_live)
  show "case actor_optimizer (init X cfg optimizer_type actor_lr critic_lr o0 actor0 critic0) of
        None \<Rightarrow> True | Some opt \<Rightarrow> over opt = Actor"
    by (rule init_over [THEN conjunct1])
  show "case critic_optimizer (init X cfg optimizer_type actor_lr critic_lr o0 actor0 critic0) of
        None \<Rightarrow> True | Some opt \<Rightarrow> over opt = Critic"
    by (rule init_over [THEN conjunct2])
next
  assume live: "live_optimizers s"
  have pi: "interact X s = (fst (interact X s), snd (interact X s))" by simp
  have pt: "train X s = (fst (train X s), snd (train X s))" by simp
  have pl: "agents_loop X tv ids s
              = (fst (agents_loop X tv ids s), snd (agents_loop X tv ids s))" by simp
  show "live_optimizers (fst (interact X s))"
    by (rule interact_live [OF live pi])
  show "nets (fst (interact X s)) ActorTarget = nets s ActorTarget"
    using interact_nets [OF pi] by simp
  show "nets (fst (interact X s)) CriticTarget = nets s CriticTarget"
    using interact_nets [OF pi] by simp
  show "keeps_targets s (fst (agents_loop X tv ids s))"
    by (rule agents_loop_keeps [OF live pl])
  show "live_optimizers (fst (train X s))"
    using train_targets [OF live pt] by blast
  show "nets (fst (train X s)) ActorTarget = nets s ActorTarget
           \<or> nets (fst (train X s)) ActorTarget
               = soft_update_target (target_tau s) (nets s ActorTarget)
                   (nets (fst (train X s)) Actor)"
    using train_targets [OF live pt] by blast
  show "nets (fst (train X s)) CriticTarget = nets s CriticTarget
           \<or> nets (fst (train X s)) CriticTarget
               = soft_update_target (target_tau s) (nets s CriticTarget)
                   (nets (fst (train X s)) Critic)"
    using train_targets [OF live pt] by blast
qed

theorem targets_changed_by_soft_update_only_witness:
  "live_optimizers ex_learner
   \<and> nets (fst (interact ex_extern ex_learner)) ActorTarget = [[1]]
   \<and> nets (fst (interact ex_extern ex_learner)) CriticTarget = [[1]]
   \<and> live_optimizers (fst (train ex_extern ex_learner))"
proof -
  have l: "live_optimizers ex_learner" by (simp add: live_optimizers_def ex_learner_def)
  show ?thesis
    using l targets_changed_by_soft_update_only
      [of ex_extern ex_learner "''rmsprop''" 1 1 "()" "[[1]]" "[[1]]" ex_learner
          "([], [], [])" "[]"]
    by (simp add: ex_learner_def init_nets_def)
qed

section \<open>The warm-up check of \<^verbatim>\<open>train\<close>\<close>

lemma actor_update_warmup:
  "actor_update X tv i (s\<lparr>episodes_before_train := thr\<rparr>)
     = apfst (\<lambda>s. s\<lparr>episodes_before_train := thr\<rparr>) (actor_update X tv i s)"
  by (simp add: actor_update_def Let_def split: option.splits prod.splits)

lemma critic_update_warmup:
  "critic_update X tv i (s\<lparr>episodes_before_train := thr\<rparr>)
     = apfst (\<lambda>s. s\<lparr>episodes_before_train := thr\<rparr>) (critic_update X tv i s)"
  by (simp add: critic_update_def Let_def split: option.splits prod.splits)

lemma agent_update_warmup:
  "agent_update X tv i (s\<lparr>episodes_before_train := thr\<rparr>)
     = apfst (\<lambda>s. s\<lparr>episodes_before_train := thr\<rparr>) (agent_update X tv i s)"
  by (cases "actor_update X tv i s")
    (simp add: agent_update_def actor_update_warmup critic_update_warmup split: option.splits)

lemma agents_loop_warmup:
  "agents_loop X tv ids (s\<lparr>episodes_before_train := thr\<rparr>)
     = apfst (\<lambda>s. s\<lparr>episodes_before_train := thr\<rparr>) (agents_loop X tv ids s)"
proof (induction ids arbitrary: s)
  case Nil
  then show ?case by simp
next
  case (Cons i ids)
  show ?case
    by (cases "agent_update X tv i s")
      (simp add: agent_update_warmup Cons.IH split: option.splits)
qed

lemma update_targets_warmup:
  "update_targets (s\<lparr>episodes_before_train := thr\<rparr>)
     = apfst (\<lambda>s. s\<lparr>episodes_before_train := thr\<rparr>) (update_targets s)"
  by (simp add: update_targets_def Let_def)

lemma train_body_warmup:
  "train_body X (s\<lparr>episodes_before_train := thr\<rparr>)
     = apfst (\<lambda>s. s\<lparr>episodes_before_train := thr\<rparr>) (train_body X s)"
proof (cases "memory_sample X (memory s) (batch_size s)")
  case (Pair sampled m)
  have c: "(s\<lparr>episodes_before_train := thr\<rparr>)\<lparr>memory := m\<rparr>
             = (s\<lparr>memory := m\<rparr>)\<lparr>episodes_before_train := thr\<rparr>" by simp
  show ?thesis
    unfolding train_body_def
    using Pair
    by (simp add: Let_def c agents_loop_warmup update_targets_warmup
        split: sum.splits option.splits prod.splits)
qed

text \<open>
  Claim C10. The first statement of \<^verbatim>\<open>train\<close> does nothing: the call is the rest of the
  body whatever \<^verbatim>\<open>n_episodes\<close> and \<^verbatim>\<open>episodes_before_train\<close> are, and its outcome does not
  depend on the threshold. At or below the threshold it still samples, builds the
  tensors and runs the actor and critic updates of every agent. Only the loop of
  \<^verbatim>\<open>run_mappo.py\<close> skips the call, while \<^verbatim>\<open>n_episodes\<close> is below its own threshold.
\<close>

theorem train_warmup_check_is_noop:
  "train X s = train_body X s
   \<and> train X (s\<lparr>episodes_before_train := thr\<rparr>)
       = apfst (\<lambda>s. s\<lparr>episodes_before_train := thr\<rparr>) (train X s)
   \<and> (n_episodes s \<le> episodes_before_train s
        \<and> memory_sample X (memory s) (batch_size s) = (Inr b, m) \<and> n_agents s = Some n
        \<and> train_tensors n (state_dim s) (action_dim s) b = Inr tv
      \<longrightarrow> train X s =
            (case agents_loop X tv [0..<n] (s\<lparr>memory := m\<rparr>) of
               (s2, Some e) \<Rightarrow> (s2, Some e)
             | (s2, None) \<Rightarrow> update_targets s2))
   \<and> (interact X s = (s1, None) \<and> n_episodes s1 < E \<longrightarrow> loop_pass X E s = (s1, None))
   \<and> (interact X s = (s1, None) \<and> E \<le> n_episodes s1 \<longrightarrow> loop_pass X E s = train X s1)"
proof (intro conjI impI)
  show "train X s = train_body X s" by (simp add: train_def)
  show "train X (s\<lparr>episodes_before_train := thr\<rparr>)
       = apfst (\<lambda>s. s\<lparr>episodes_before_train := thr\<rparr>) (train X s)"
    by (simp add: train_def train_body_warmup)
next
  assume a: "n_episodes s \<le> episodes_before_train s
        \<and> memory_sample X (memory s) (batch_size s) = (Inr b, m) \<and> n_agents s = Some n
        \<and> train_tensors n (state_dim s) (action_dim s) b = Inr tv"
  then show "train X s =
            (case agents_loop X tv [0..<n] (s\<lparr>memory := m\<rparr>) of
               (s2, Some e) \<Rightarrow> (s2, Some e)
             | (s2, None) \<Rightarrow> update_targets s2)"
    using train_unfold [of X s b m n] by simp
next
  assume "interact X s = (s1, None) \<and> n_episodes s1 < E"
  then show "loop_pass X E s = (s1, None)" by (simp add: loop_pass_def)
next
  assume "interact X s = (s1, None) \<and> E \<le> n_episodes s1"
  then show "loop_pass X E s = train X s1" by (simp add: loop_pass_def)
qed

lemma ex_interact:
  assumes "interact ex_extern ex_learner = (s1, r)"
  shows "r = None \<and> n_episodes s1 = 0"
  using assms
  by (auto simp add: interact_def reset_if_over_def ex_extern_def ex_learner_def
      rollout_step_def exploration_action_def continuous_action_def step_reward_def
      empty_rollout_def final_value_of_def action_def value_def process_rewards_def
      scale_rewards_def rectangular_def discount_agent_def get_column_def set_column_def
      tolist_def discount_reward_def Let_def split: if_splits)

theorem train_warmup_check_is_noop_witness:
  "n_episodes ex_learner \<le> episodes_before_train ex_learner
   \<and> nets ex_learner Actor = [[1]] \<and> nets ex_learner Critic = [[1]]
   \<and> snd (train ex_extern ex_learner) = None
   \<and> nets (fst (train ex_extern ex_learner)) Actor = [[2]]
   \<and> nets (fst (train ex_extern ex_learner)) Critic = [[2]]
   \<and> snd (interact ex_extern ex_learner) = None
   \<and> loop_pass ex_extern 100 ex_learner = interact ex_extern ex_learner
   \<and> loop_pass ex_extern 0 ex_learner = train ex_extern (fst (interact ex_extern ex_learner))"
proof -
  have le: "n_episodes ex_learner \<le> episodes_before_train ex_learner"
    by (simp add: ex_learner_def)
  have m: "memory_sample ex_extern (memory ex_learner) (batch_size ex_learner)
             = (Inr ex_batch, ex_batch)"
    by (simp add: ex_extern_def ex_learner_def)
  have n: "n_agents ex_learner = Some (Suc 0)" by (simp add: ex_learner_def)
  have tv: "train_tensors (Suc 0) (state_dim ex_learner) (action_dim ex_learner) ex_batch
              = Inr ([[[0]], [[1]]], [[[1]], [[1]]], [[[0]], [[1]]])"
    using ex_tensors by (simp add: ex_learner_def)
  have pi: "interact ex_extern ex_learner
              = (fst (interact ex_extern ex_learner), snd (interact ex_extern ex_learner))"
    by simp
  note i = ex_interact [OF pi]
  have pi': "interact ex_extern ex_learner = (fst (interact ex_extern ex_learner), None)"
    using pi i by simp
  note w = train_warmup_check_is_noop [of ex_extern ex_learner]
  have t: "train ex_extern ex_learner =
            (case agents_loop ex_extern ([[[0]], [[1]]], [[[1]], [[1]]], [[[0]], [[1]]])
                    [0..<Suc 0] (ex_learner\<lparr>memory := ex_batch\<rparr>) of
               (s2, Some e) \<Rightarrow> (s2, Some e)
             | (s2, None) \<Rightarrow> update_targets s2)"
    using w [of 0 ex_batch ex_batch "Suc 0" _ ex_learner 0] le m n tv by blast
  have res: "snd (train ex_extern ex_learner) = None
     \<and> nets (fst (train ex_extern ex_learner)) Actor = [[2]]
     \<and> nets (fst (train ex_extern ex_learner)) Critic = [[2]]"
    unfolding t
    by (simp add: ex_extern_def ex_learner_def actor_update_def critic_update_def
        agent_update_def update_targets_def init_nets_def Let_def)
  have skip: "loop_pass ex_extern 100 ex_learner = interact ex_extern ex_learner"
    using w [of 0 ex_batch ex_batch "Suc 0" _ "fst (interact ex_extern ex_learner)" 100] pi' i
    by simp
  have run: "loop_pass ex_extern 0 ex_learner
               = train ex_extern (fst (interact ex_extern ex_learner))"
    using w [of 0 ex_batch ex_batch "Suc 0" _ "fst (interact ex_extern ex_learner)" 0] pi' i
    by simp
  show ?thesis
    using le res i skip run by (simp add: ex_learner_def init_nets_def)
qed


section \<open>Properties of the bootstrap value\<close>

lemma add_noise_length: "length (fst (add_noise rn c k ps)) = length ps"
  by (induction ps arbitrary: k) (simp_all add: Let_def case_prod_beta)

lemma continuous_action_rows:
  "n \<le> length state \<Longrightarrow>
   continuous_action X s state n
     = Inr (map (\<lambda>agent_id. actor_forward X (nets s Actor) (state ! agent_id)) [0..<n])"
  by (simp add: continuous_action_def)

text \<open>
  Claim C4, as the code has it. When the rollout did not end in a terminal state, the
  bootstrap value of every agent is the live critic (\<^verbatim>\<open>self.critic\<close>, not the critic
  target) at the agent's row of the final state and its row of \<^verbatim>\<open>self.action(final_state)\<close>:
  the live actor's output there plus \<open>0.01\<close> times a draw of \<^verbatim>\<open>np.random.randn\<close> for each
  component.
\<close>

theorem bootstrap_value_not_terminal:
  assumes "\<not> ro_done ro" and "ro_final_state ro = Some final_state"
    and "n_agents s = Some n" and "n \<le> length final_state"
  shows "snd (final_value_of X n ro s)
     = Inr (map (\<lambda>agent_id.
              critic_forward X (nets s Critic) (final_state ! agent_id)
                (fst (add_noise (randn X) (1/100) (rng s)
                        (map (\<lambda>i. actor_forward X (nets s Actor) (final_state ! i)) [0..<n]))
                   ! agent_id))
            [0..<n])"
  using assms
  by (simp add: final_value_of_def action_def continuous_action_def value_def Let_def
      add_noise_length case_prod_beta)

theorem bootstrap_value_not_terminal_witness:
  "\<not> ro_done ex_rollout \<and> ro_final_state ex_rollout = Some [[1]]
   \<and> n_agents ex_learner = Some 1 \<and> (1::nat) \<le> length [[1::real]]
   \<and> snd (final_value_of ex_extern 1 ex_rollout (ex_learner\<lparr>rng := 1\<rparr>)) = Inr [201/100]"
proof -
  have a: "\<not> ro_done ex_rollout" by (simp add: ex_rollout_def)
  have b: "ro_final_state ex_rollout = Some [[1]]" by (simp add: ex_rollout_def)
  have c: "n_agents (ex_learner\<lparr>rng := 1\<rparr>) = Some 1" by (simp add: ex_learner_def)
  have d: "(1::nat) \<le> length [[1::real]]" by simp
  show ?thesis
    using a b d bootstrap_value_not_terminal [OF a b c d, of ex_extern]
    by (simp add: ex_learner_def ex_extern_def init_nets_def weight_def Let_def
        case_prod_beta)
qed

text \<open>
  The claim as stated fails on both counts. In the first learner the critic target has
  weight \<open>0\<close> and the critic weight \<open>1\<close>, and the draw is \<open>0\<close>: the bootstrap value is the
  live critic's \<open>2\<close>, not the target's \<open>0\<close>. In the second learner the two critics agree
  and the draw is \<open>1\<close>: the value is \<open>2.01\<close>, at the action with noise, not \<open>2\<close>.
\<close>

theorem bootstrap_value_live_critic_and_noise:
  "snd (final_value_of ex_extern 1 ex_rollout
          (ex_learner\<lparr>nets := (init_nets [[1]] [[1]])(CriticTarget := [[0]])\<rparr>)) = Inr [2]
   \<and> bootstrap_spec ex_extern
          (ex_learner\<lparr>nets := (init_nets [[1]] [[1]])(CriticTarget := [[0]])\<rparr>) [[1]] 1 = [0]
   \<and> snd (final_value_of ex_extern 1 ex_rollout (ex_learner\<lparr>rng := 1\<rparr>)) = Inr [201/100]
   \<and> bootstrap_spec ex_extern (ex_learner\<lparr>rng := 1\<rparr>) [[1]] 1 = [2]"
  by (simp add: final_value_of_def action_def continuous_action_def value_def bootstrap_spec_def
      ex_rollout_def ex_learner_def ex_extern_def init_nets_def weight_def Let_def
      case_prod_beta)


section \<open>The actor loss\<close>

lemma exp_one_bounds: "(6/5::real) \<le> exp 1" "(4/5::real) \<le> exp 1"
  using exp_ge_add_one_self [of "1::real"] by simp_all

lemma clamp_exp_one: "clamp (exp 1) (4/5) (6/5) = 6/5"
  using exp_one_bounds by (simp add: clamp_def)

lemma clamp_one: "clamp 1 (4/5) (6/5) = 1"
  by (simp add: clamp_def)

lemma min_exp_one: "min (exp 1) (6/5 :: real) = 6/5"
  using exp_one_bounds by simp

text \<open>With a single sample the broadcast product has one entry and the two losses agree.\<close>

lemma actor_loss_single_sample:
  "actor_loss X clip theta_c theta_old [st] [a] [r] theta
     = clipped_surrogate_loss clip (ratio_of X theta theta_old [st] [a])
         (advantages_of X theta_c [st] [a] [r])"
  by (simp add: actor_loss_def clipped_surrogate_loss_def ratio_of_def advantages_of_def
      log_prob_proxy_def column_def mul_vec_col_def tensor_mean_def Let_def)

text \<open>
  Claim C2 at a batch of two samples. The agent's slices of \<open>ex_batch\<close> are the states
  \<open>[[0], [1]]\<close>, the actions \<open>[[1], [1]]\<close> and the discounted rewards \<open>[[0], [1]]\<close>; the live
  actor has weight \<open>1\<close>, the actor target and the critic target weight \<open>0\<close>, and
  \<^verbatim>\<open>clip_param\<close> is \<open>0.2\<close>. The ratios are \<open>[1, e]\<close> and the advantages \<open>[0, 1]\<close>. The loss of
  the code is the mean over the four products of a ratio with an advantage, \<open>-0.55\<close>; the
  clipped surrogate of the two samples is \<open>-0.6\<close>.
\<close>

theorem actor_loss_broadcast_two_samples:
  "train_tensors 1 1 1 ex_batch = Inr ([[[0]], [[1]]], [[[1]], [[1]]], [[[0]], [[1]]])
   \<and> agent_slice 0 [[[0]], [[1]]] = [[0], [1]]
   \<and> agent_slice 0 [[[1]], [[1]]] = [[1], [1]]
   \<and> ratio_of ex_extern [[1]] [[0]] [[0], [1]] [[1], [1]] = [1, exp 1]
   \<and> advantages_of ex_extern [[0]] [[0], [1]] [[1], [1]] [[0], [1]] = [0, 1]
   \<and> actor_loss ex_extern (1/5) [[0]] [[0]] [[0], [1]] [[1], [1]] [[0], [1]] [[1]]
       = Some (- (11/20))
   \<and> clipped_surrogate_loss (1/5) [1, exp 1] [0, 1] = Some (- (3/5))"
proof -
  have r: "ratio_of ex_extern [[1]] [[0]] [[0], [1]] [[1], [1]] = [1, exp 1]"
    by (simp add: ratio_of_def log_prob_proxy_def ex_extern_def weight_def)
  have a: "advantages_of ex_extern [[0]] [[0], [1]] [[1], [1]] [[0], [1]] = [0, 1]"
    by (simp add: advantages_of_def column_def ex_extern_def weight_def)
  have l: "actor_loss ex_extern (1/5) [[0]] [[0]] [[0], [1]] [[1], [1]] [[0], [1]] [[1]]
       = Some (- (11/20))"
    unfolding actor_loss_def r a
    by (simp add: Let_def mul_vec_col_def tensor_mean_def clamp_exp_one clamp_one min_exp_one)
  have c: "clipped_surrogate_loss (1/5) [1, exp 1] [0, 1] = Some (- (3/5))"
    by (simp add: clipped_surrogate_loss_def tensor_mean_def clamp_exp_one clamp_one
        min_exp_one)
  have t: "train_tensors 1 1 1 ex_batch = Inr ([[[0]], [[1]]], [[[1]], [[1]]], [[[0]], [[1]]])"
    using ex_tensors by simp
  show ?thesis
    using r a l c t by (simp add: agent_slice_def)
qed


section \<open>Reward scaling inside \<^verbatim>\<open>interact\<close>\<close>

text \<open>\<^verbatim>\<open>interact\<close> writes the memory in its last statement only, and never the scale.\<close>

lemma rollout_step_scale:
  "rollout_step X n (s, ro) = ((s1, ro1), r) \<Longrightarrow>
   reward_scale s1 = reward_scale s \<and> reward_gamma s1 = reward_gamma s
   \<and> memory s1 = memory s"
  by (auto simp: rollout_step_def Let_def split: sum.splits prod.splits if_splits)

lemma rollout_loop_scale:
  "rollout_loop X n k (s, ro) = ((s1, ro1), r) \<Longrightarrow>
   reward_scale s1 = reward_scale s \<and> reward_gamma s1 = reward_gamma s
   \<and> memory s1 = memory s"
proof (induction k arbitrary: s ro)
  case 0
  then show ?case by simp
next
  case (Suc k)
  obtain s2 ro2 r2 where st: "rollout_step X n (s, ro) = ((s2, ro2), r2)"
    by (cases "rollout_step X n (s, ro)") auto
  note n2 = rollout_step_scale [OF st]
  show ?case
  proof (cases "r2 = None \<and> \<not> ro_done ro2")
    case True
    then have "rollout_loop X n k (s2, ro2) = ((s1, ro1), r)"
      using Suc.prems st by simp
    then show ?thesis using Suc.IH n2 by simp
  next
    case False
    then have "s1 = s2" using Suc.prems st by (cases r2) (auto split: if_splits)
    then show ?thesis using n2 by simp
  qed
qed

lemma final_value_of_scale:
  "final_value_of X n ro s = (s1, v) \<Longrightarrow>
   reward_scale s1 = reward_scale s \<and> reward_gamma s1 = reward_gamma s
   \<and> memory s1 = memory s"
  by (auto simp: final_value_of_def Let_def split: if_splits option.splits sum.splits prod.splits)

lemma reset_if_over_scale:
  "reward_scale (reset_if_over X s) = reward_scale s
   \<and> reward_gamma (reset_if_over X s) = reward_gamma s
   \<and> memory (reset_if_over X s) = memory s"
  by (simp add: reset_if_over_def Let_def split: option.splits prod.splits)

text \<open>
  The phases of one call: the rollout, the bootstrap value, and the scaling, discounting
  and push, which run on the scale and the discount factor the call started with.
\<close>

lemma interact_phases:
  assumes "rollout_loop X (env_controlled_vehicles X (env (reset_if_over X s)))
             (nat (roll_out_n_steps (reset_if_over X s)))
             ((reset_if_over X s)\<lparr>n_agents :=
                 Some (env_controlled_vehicles X (env (reset_if_over X s)))\<rparr>, empty_rollout)
           = ((s2, ro), None)"
    and "final_value_of X (env_controlled_vehicles X (env (reset_if_over X s))) ro s2
           = (s3, Inr final_value)"
  shows "interact X s =
     (case process_rewards (reward_scale s) (reward_gamma s)
             (env_controlled_vehicles X (env (reset_if_over X s))) final_value (ro_rewards ro) of
        Inl e \<Rightarrow> (s3, Some e)
      | Inr rewards \<Rightarrow>
          (s3\<lparr>memory := memory_push X (memory s3) (ro_states ro) (ro_actions ro) rewards\<rparr>,
           None))"
proof -
  have "reward_scale s3 = reward_scale s \<and> reward_gamma s3 = reward_gamma s"
    using final_value_of_scale [OF assms(2)] rollout_loop_scale [OF assms(1)]
      reset_if_over_scale [of X s] by simp
  then show ?thesis
    using assms by (simp add: interact_def Let_def)
qed

text \<open>
  With a scale above 0 the call pushes the discounted quotients of the collected rewards.
\<close>

lemma interact_scaled:
  assumes "rollout_loop X (env_controlled_vehicles X (env (reset_if_over X s)))
             (nat (roll_out_n_steps (reset_if_over X s)))
             ((reset_if_over X s)\<lparr>n_agents :=
                 Some (env_controlled_vehicles X (env (reset_if_over X s)))\<rparr>, empty_rollout)
           = ((s2, ro), None)"
    and "final_value_of X (env_controlled_vehicles X (env (reset_if_over X s))) ro s2
           = (s3, Inr final_value)"
    and "0 < reward_scale s" and "rectangular (ro_rewards ro)"
  shows "interact X s =
     (case discount_agents (reward_gamma s) final_value
             [0..<env_controlled_vehicles X (env (reset_if_over X s))]
             (NdArray (map (map (\<lambda>r. r / reward_scale s)) (ro_rewards ro))) of
        Inl e \<Rightarrow> (s3, Some e)
      | Inr rv \<Rightarrow>
          (case tolist rv of
             Inl e \<Rightarrow> (s3, Some e)
           | Inr rewards \<Rightarrow>
               (s3\<lparr>memory := memory_push X (memory s3) (ro_states ro) (ro_actions ro) rewards\<rparr>,
                None)))"
  unfolding interact_phases [OF assms(1,2)] process_rewards_scaled [OF assms(3,4)]
  by (simp split: sum.splits)

text \<open>
  With a scale of at most 0 a call whose rollout and bootstrap value succeed raises in
  the discounting loop, or at \<^verbatim>\<open>tolist\<close> when there is no agent.
\<close>

lemma interact_unscaled_error:
  assumes "rollout_loop X (env_controlled_vehicles X (env (reset_if_over X s)))
             (nat (roll_out_n_steps (reset_if_over X s)))
             ((reset_if_over X s)\<lparr>n_agents :=
                 Some (env_controlled_vehicles X (env (reset_if_over X s)))\<rparr>, empty_rollout)
           = ((s2, ro), None)"
    and "final_value_of X (env_controlled_vehicles X (env (reset_if_over X s))) ro s2
           = (s3, Inr final_value)"
    and "reward_scale s \<le> 0"
  shows "interact X s =
     (s3, Some (if env_controlled_vehicles X (env (reset_if_over X s)) = 0
                then AttributeError else TypeError))"
  unfolding interact_phases [OF assms(1,2)] process_rewards_unscaled [OF assms(3)]
  by simp

lemma interact_unscaled:
  assumes "reward_scale s \<le> 0" and "interact X s = (s1, r)"
  shows "r \<noteq> None \<and> memory s1 = memory s"
proof -
  let ?s0 = "reset_if_over X s"
  let ?n = "env_controlled_vehicles X (env ?s0)"
  let ?s1 = "?s0\<lparr>n_agents := Some ?n\<rparr>"
  obtain s2 ro r2 where loop:
    "rollout_loop X ?n (nat (roll_out_n_steps ?s0)) (?s1, empty_rollout) = ((s2, ro), r2)"
    by (cases "rollout_loop X ?n (nat (roll_out_n_steps ?s0)) (?s1, empty_rollout)") auto
  have m2: "memory s2 = memory s"
    using rollout_loop_scale [OF loop] reset_if_over_scale [of X s] by simp
  obtain s3 v where fv: "final_value_of X ?n ro s2 = (s3, v)"
    by (cases "final_value_of X ?n ro s2")
  have m3: "memory s3 = memory s"
    using final_value_of_scale [OF fv] m2 by simp
  show ?thesis
  proof (cases r2)
    case (Some e)
    then have "s1 = s2 \<and> r = Some e"
      using assms(2) loop by (simp add: interact_def Let_def)
    then show ?thesis using m2 by simp
  next
    case None
    show ?thesis
    proof (cases v)
      case (Inl e)
      then have "s1 = s3 \<and> r = Some e"
        using assms(2) loop None fv by (simp add: interact_def Let_def)
      then show ?thesis using m3 by simp
    next
      case (Inr final_value)
      have "interact X s = (s3, Some (if ?n = 0 then AttributeError else TypeError))"
        using loop None fv Inr by (intro interact_unscaled_error [OF _ _ assms(1)]) simp_all
      then have "s1 = s3 \<and> r \<noteq> None" using assms(2) by auto
      then show ?thesis using m3 by simp
    qed
  qed
qed

lemma ex_interact_unscaled:
  assumes "interact ex_extern (ex_learner\<lparr>reward_scale := 0\<rparr>) = (s1, r)"
  shows "r = Some TypeError"
  using assms
  by (auto simp add: interact_def reset_if_over_def ex_extern_def ex_learner_def
      rollout_step_def exploration_action_def continuous_action_def step_reward_def
      empty_rollout_def final_value_of_def action_def value_def process_rewards_def
      scale_rewards_def discount_agent_def Let_def split: if_splits)

text \<open>
  Claim C7 where the code misses it. With \<^verbatim>\<open>reward_scale\<close> at most 0 the rewards are left
  unscaled, and they are left a Python list as well: the array is built only under the
  guard. Every call of \<^verbatim>\<open>interact\<close> then raises, at the latest at
  \<^verbatim>\<open>rewards[:, agent_id]\<close>, and pushes nothing: no unscaled reward is ever discounted or
  stored.
\<close>

theorem interact_unscaled_rewards_raise:
  assumes "reward_scale s \<le> 0"
  shows "snd (interact X s) \<noteq> None \<and> memory (fst (interact X s)) = memory s"
proof -
  have p: "interact X s = (fst (interact X s), snd (interact X s))" by simp
  show ?thesis by (rule interact_unscaled [OF assms p])
qed

theorem interact_unscaled_rewards_raise_witness:
  "reward_scale (ex_learner\<lparr>reward_scale := 0\<rparr>) \<le> 0
   \<and> env_controlled_vehicles ex_extern (env (ex_learner\<lparr>reward_scale := 0\<rparr>)) = 1
   \<and> snd (interact ex_extern (ex_learner\<lparr>reward_scale := 0\<rparr>)) = Some TypeError
   \<and> memory (fst (interact ex_extern (ex_learner\<lparr>reward_scale := 0\<rparr>))) = ex_batch"
proof -
  have h: "reward_scale (ex_learner\<lparr>reward_scale := 0\<rparr>) \<le> 0" by simp
  have p: "interact ex_extern (ex_learner\<lparr>reward_scale := 0\<rparr>)
             = (fst (interact ex_extern (ex_learner\<lparr>reward_scale := 0\<rparr>)),
                snd (interact ex_extern (ex_learner\<lparr>reward_scale := 0\<rparr>)))" by simp
  show ?thesis
    using interact_unscaled_rewards_raise [OF h, of ex_extern] ex_interact_unscaled [OF p]
    by (simp add: ex_learner_def ex_extern_def)
qed

end
